theory Spec2Isabelle
  imports Main
begin

section \<open>The operating system as certlib sees it\<close>

text \<open>
  A path is the list of its components below the root: \<open>/etc/acme/client.key\<close> is
  \<open>[''etc'', ''acme'', ''client.key'']\<close> and \<open>[]\<close> is the root directory. Paths are
  absolute and normalised, so two paths name the same file exactly when they are equal.
  \<open>os.path.dirname\<close>, \<open>os.path.basename\<close> and \<open>os.path.join\<close> work on components.
\<close>

type_synonym path = "string list"

definition dirname :: "path \<Rightarrow> path" where
  "dirname p = butlast p"

definition basename :: "path \<Rightarrow> string" where
  "basename p = (if p = [] then [] else last p)"

datatype node = File string | Dir

text \<open>The subclasses of \<open>OSError\<close> the code tells apart; \<open>OSError\<close> stands for every other one.\<close>

datatype oserror =
  FileNotFoundError | FileExistsError | PermissionError
  | NotADirectoryError | IsADirectoryError | OSError

text \<open>
  What the environment can refuse on its own account: a permission (\<open>EACCES\<close>,
  \<open>EPERM\<close>: Python's \<open>PermissionError\<close>) or the device (\<open>ENOSPC\<close>, \<open>EIO\<close>, ...:
  a plain \<open>OSError\<close>).
\<close>

datatype fault = NoPermission | DeviceError

definition fault_error :: "fault \<Rightarrow> oserror" where
  "fault_error f = (case f of NoPermission \<Rightarrow> PermissionError | DeviceError \<Rightarrow> OSError)"

datatype syscall =
  SysMkdir path | SysRmdir path | SysRename path path | SysOpen path
  | SysFchmod path | SysFchown path | SysWrite path | SysRemove path

datatype level = DEBUG | INFO | WARNING | ERROR

text \<open>
  Observable events that are no part of the file system: which method of which operation
  \<open>commit_file_transactions\<close> invoked (the operation named by its \<open>file_path\<close>).
\<close>

datatype event = Apply path | Revert path | Cleanup path

text \<open>
  The world a run works in. \<open>nodes\<close> holds every file (with its content) and every
  directory but the root, each path at most once. \<open>faults\<close> is what the environment
  refuses beyond what the tree itself explains (a full disk, a missing permission): a
  system call listed there raises the error of that fault and changes nothing. \<open>tmp_names\<close> are
  the candidate names \<open>tempfile\<close> will draw, in order. \<open>log\<close> collects the messages
  given to the logger (level and format string, written without its quote characters), \<open>trace\<close> the events above. Permission
  bits and owners are not part of the state: \<open>fchmod\<close> and \<open>fchown\<close> can only fail.
\<close>

record world =
  nodes :: "(path \<times> node) list"
  faults :: "syscall \<Rightarrow> fault option"
  tmp_names :: "string list"
  log :: "(level \<times> string) list"
  trace :: "event list"

definition lookup :: "world \<Rightarrow> path \<Rightarrow> node option" where
  "lookup w p = (if p = [] then Some Dir else map_of (nodes w) p)"

definition exists_path :: "world \<Rightarrow> path \<Rightarrow> bool" where
  "exists_path w p = (lookup w p \<noteq> None)"

definition isdir :: "world \<Rightarrow> path \<Rightarrow> bool" where
  "isdir w p = (lookup w p = Some Dir)"

definition read_file :: "world \<Rightarrow> path \<Rightarrow> string option" where
  "read_file w p = (case lookup w p of Some (File c) \<Rightarrow> Some c | _ \<Rightarrow> None)"

definition del_node :: "path \<Rightarrow> (path \<times> node) list \<Rightarrow> (path \<times> node) list" where
  "del_node p ns = filter (\<lambda>(q, n). q \<noteq> p) ns"

definition put_node :: "path \<Rightarrow> node \<Rightarrow> (path \<times> node) list \<Rightarrow> (path \<times> node) list" where
  "put_node p n ns = (p, n) # del_node p ns"

definition has_entries :: "world \<Rightarrow> path \<Rightarrow> bool" where
  "has_entries w p = list_ex (\<lambda>(q, n). q \<noteq> [] \<and> butlast q = p) (nodes w)"

definition log_msg :: "level \<Rightarrow> string \<Rightarrow> world \<Rightarrow> world" where
  "log_msg l m w = w\<lparr>log := log w @ [(l, m)]\<rparr>"

definition emit :: "event \<Rightarrow> world \<Rightarrow> world" where
  "emit e w = w\<lparr>trace := trace w @ [e]\<rparr>"

subsection \<open>System calls\<close>

text \<open>
  A procedure returns \<open>(None, w')\<close> when it returns normally and \<open>(Some e, w')\<close> when it
  raises \<open>e\<close>; \<open>w'\<close> is the world it leaves behind either way.
\<close>

definition parent_error :: "world \<Rightarrow> path \<Rightarrow> oserror option" where
  "parent_error w p =
     (case lookup w (dirname p) of
        None \<Rightarrow> Some FileNotFoundError
      | Some (File c) \<Rightarrow> Some NotADirectoryError
      | Some Dir \<Rightarrow> None)"

definition os_mkdir :: "path \<Rightarrow> world \<Rightarrow> oserror option \<times> world" where
  "os_mkdir p w =
     (case faults w (SysMkdir p) of
        Some f \<Rightarrow> (Some (fault_error f), w)
      | None \<Rightarrow>
          if exists_path w p then (Some FileExistsError, w)
          else (case parent_error w p of
                  Some e \<Rightarrow> (Some e, w)
                | None \<Rightarrow> (None, w\<lparr>nodes := put_node p Dir (nodes w)\<rparr>)))"

definition os_rmdir :: "path \<Rightarrow> world \<Rightarrow> oserror option \<times> world" where
  "os_rmdir p w =
     (case faults w (SysRmdir p) of
        Some f \<Rightarrow> (Some (fault_error f), w)
      | None \<Rightarrow>
          (case lookup w p of
             None \<Rightarrow> (Some FileNotFoundError, w)
           | Some (File c) \<Rightarrow> (Some NotADirectoryError, w)
           | Some Dir \<Rightarrow>
               if p = [] \<or> has_entries w p then (Some OSError, w)
               else (None, w\<lparr>nodes := del_node p (nodes w)\<rparr>)))"

definition os_remove :: "path \<Rightarrow> world \<Rightarrow> oserror option \<times> world" where
  "os_remove p w =
     (case faults w (SysRemove p) of
        Some f \<Rightarrow> (Some (fault_error f), w)
      | None \<Rightarrow>
          (case lookup w p of
             None \<Rightarrow> (Some FileNotFoundError, w)
           | Some Dir \<Rightarrow> (Some IsADirectoryError, w)
           | Some (File c) \<Rightarrow> (None, w\<lparr>nodes := del_node p (nodes w)\<rparr>)))"

text \<open>
  \<open>rename(2)\<close>: a file replaces a file at the destination; a directory moves with
  everything below it, onto nothing or onto an empty directory; renaming a path onto
  itself does nothing.
\<close>

definition rebase :: "path \<Rightarrow> path \<Rightarrow> path \<times> node \<Rightarrow> path \<times> node" where
  "rebase src dst = (\<lambda>(q, n).
     if take (length src) q = src then (dst @ drop (length src) q, n) else (q, n))"

definition move_file :: "path \<Rightarrow> string \<Rightarrow> path \<Rightarrow> world \<Rightarrow> oserror option \<times> world" where
  "move_file src c dst w =
     (if src = dst then (None, w)
      else (case parent_error w dst of
              Some e \<Rightarrow> (Some e, w)
            | None \<Rightarrow>
                if isdir w dst then (Some IsADirectoryError, w)
                else (None, w\<lparr>nodes := put_node dst (File c) (del_node src (nodes w))\<rparr>)))"

definition move_dir :: "path \<Rightarrow> path \<Rightarrow> world \<Rightarrow> oserror option \<times> world" where
  "move_dir src dst w =
     (if src = [] then (Some OSError, w)
      else if src = dst then (None, w)
      else if take (length src) dst = src then (Some OSError, w)
      else (case parent_error w dst of
              Some e \<Rightarrow> (Some e, w)
            | None \<Rightarrow>
                (case lookup w dst of
                   Some (File c) \<Rightarrow> (Some NotADirectoryError, w)
                 | Some Dir \<Rightarrow>
                     if dst = [] \<or> has_entries w dst then (Some OSError, w)
                     else (None, w\<lparr>nodes := map (rebase src dst) (del_node dst (nodes w))\<rparr>)
                 | None \<Rightarrow> (None, w\<lparr>nodes := map (rebase src dst) (nodes w)\<rparr>))))"

definition os_rename :: "path \<Rightarrow> path \<Rightarrow> world \<Rightarrow> oserror option \<times> world" where
  "os_rename src dst w =
     (case faults w (SysRename src dst) of
        Some f \<Rightarrow> (Some (fault_error f), w)
      | None \<Rightarrow>
          (case lookup w src of
             None \<Rightarrow> (Some FileNotFoundError, w)
           | Some (File c) \<Rightarrow> move_file src c dst w
           | Some Dir \<Rightarrow> move_dir src dst w))"

text \<open>\<open>open(p, 'w')\<close> creates the file or truncates it; \<open>f.write(c)\<close> gives it its content.\<close>

definition os_open :: "path \<Rightarrow> world \<Rightarrow> oserror option \<times> world" where
  "os_open p w =
     (case faults w (SysOpen p) of
        Some f \<Rightarrow> (Some (fault_error f), w)
      | None \<Rightarrow>
          (case parent_error w p of
             Some e \<Rightarrow> (Some e, w)
           | None \<Rightarrow>
               if isdir w p then (Some IsADirectoryError, w)
               else (None, w\<lparr>nodes := put_node p (File []) (nodes w)\<rparr>)))"

definition os_write :: "path \<Rightarrow> string \<Rightarrow> world \<Rightarrow> oserror option \<times> world" where
  "os_write p c w =
     (case faults w (SysWrite p) of
        Some f \<Rightarrow> (Some (fault_error f), w)
      | None \<Rightarrow> (None, w\<lparr>nodes := put_node p (File c) (nodes w)\<rparr>))"

definition os_fchmod :: "path \<Rightarrow> world \<Rightarrow> oserror option \<times> world" where
  "os_fchmod p w = (map_option fault_error (faults w (SysFchmod p)), w)"

definition os_fchown :: "path \<Rightarrow> world \<Rightarrow> oserror option \<times> world" where
  "os_fchown p w = (map_option fault_error (faults w (SysFchown p)), w)"

text \<open>
  \<open>os.makedirs(name, mode, exist_ok)\<close>: make the missing ancestors first (a
  \<open>FileExistsError\<close> from that is passed over), then the directory itself; with
  \<open>exist_ok\<close> an error of \<open>mkdir\<close> on an existing directory is passed over too.
\<close>

function makedirs :: "bool \<Rightarrow> path \<Rightarrow> world \<Rightarrow> oserror option \<times> world" where
  "makedirs exist_ok name w =
     (case (if name \<noteq> [] \<and> \<not> exists_path w (dirname name)
            then (case makedirs exist_ok (dirname name) w of
                    (Some e, w1) \<Rightarrow> if e = FileExistsError then (None, w1) else (Some e, w1)
                  | (None, w1) \<Rightarrow> (None, w1))
            else (None, w)) of
        (Some e, w1) \<Rightarrow> (Some e, w1)
      | (None, w1) \<Rightarrow>
          (case os_mkdir name w1 of
             (Some e, w2) \<Rightarrow>
               if \<not> exist_ok \<or> \<not> isdir w2 name then (Some e, w2) else (None, w2)
           | (None, w2) \<Rightarrow> (None, w2)))"
  by pat_completeness auto
termination
  by (relation "measure (\<lambda>(e, name, w). length name)") (auto simp: dirname_def)

text \<open>
  \<open>os.removedirs(name)\<close>: remove the directory (an error is raised), then its ancestors
  one after the other until one cannot be removed (that error is dropped).
\<close>

function prune_parents :: "path \<Rightarrow> world \<Rightarrow> world" where
  "prune_parents head w =
     (if head = [] then w
      else (case os_rmdir head w of
              (Some e, w1) \<Rightarrow> w1
            | (None, w1) \<Rightarrow> prune_parents (dirname head) w1))"
  by pat_completeness auto
termination
  by (relation "measure (\<lambda>(head, w). length head)") (auto simp: dirname_def)

definition removedirs :: "path \<Rightarrow> world \<Rightarrow> oserror option \<times> world" where
  "removedirs name w =
     (case os_rmdir name w of
        (Some e, w1) \<Rightarrow> (Some e, w1)
      | (None, w1) \<Rightarrow> (None, prune_parents (dirname name) w1))"

text \<open>
  \<open>tempfile.mktemp(prefix, dir)\<close>: the first candidate name whose path does not exist;
  the candidates tried are used up. \<open>FileExistsError\<close> when every candidate is taken.
\<close>

fun first_free :: "world \<Rightarrow> path \<Rightarrow> string \<Rightarrow> string list \<Rightarrow> (path \<times> string list) option" where
  "first_free w dir prefix [] = None"
| "first_free w dir prefix (n # ns) =
     (if exists_path w (dir @ [prefix @ n]) then first_free w dir prefix ns
      else Some (dir @ [prefix @ n], ns))"

definition mktemp :: "string \<Rightarrow> path \<Rightarrow> world \<Rightarrow> (oserror + path) \<times> world" where
  "mktemp prefix dir w =
     (case first_free w dir prefix (tmp_names w) of
        None \<Rightarrow> (Inl FileExistsError, w\<lparr>tmp_names := []\<rparr>)
      | Some (p, rest) \<Rightarrow> (Inr p, w\<lparr>tmp_names := rest\<rparr>))"

declare makedirs.simps [simp del]
declare prune_parents.simps [simp del]

section \<open>File operations (certlib/utils.py)\<close>

text \<open>
  The three classes \<open>WriteOperation\<close>, \<open>ArchiveAndWriteOperation\<close> and
  \<open>ArchiveOperation\<close>; the two archiving ones carry their \<open>file_type\<close>. The fields
  \<open>f_content\<close>, \<open>f_tmp_path\<close>, \<open>f_rmdir\<close> and \<open>f_archived\<close> are the attributes
  \<open>_content\<close>, \<open>_tmp_path\<close>, \<open>_rmdir\<close> and \<open>_archived\<close>. The methods change
  the object, so each returns the operation as it leaves it.
\<close>

datatype op_class = WriteOperation | ArchiveAndWriteOperation string | ArchiveOperation string

record operation =
  op_class :: op_class
  file_path :: path
  mode :: nat
  owner :: "(nat \<times> nat) option"
  f_content :: "string option"
  f_tmp_path :: "path option"
  f_rmdir :: bool
  f_archived :: bool

text \<open>The constructors; \<open>owner\<close> is dropped when it is the caller itself (\<open>is_self\<close>).\<close>

definition new_WriteOperation :: "path \<Rightarrow> nat \<Rightarrow> (nat \<times> nat \<times> bool) option \<Rightarrow> operation" where
  "new_WriteOperation fp m ow =
     \<lparr>op_class = WriteOperation, file_path = fp, mode = m,
      owner = (case ow of Some (uid, gid, is_self) \<Rightarrow> if is_self then None else Some (uid, gid)
               | None \<Rightarrow> None),
      f_content = None, f_tmp_path = None, f_rmdir = False, f_archived = False\<rparr>"

definition new_ArchiveAndWriteOperation ::
  "string \<Rightarrow> path \<Rightarrow> nat \<Rightarrow> (nat \<times> nat \<times> bool) option \<Rightarrow> operation" where
  "new_ArchiveAndWriteOperation ft fp m ow =
     (new_WriteOperation fp m ow)\<lparr>op_class := ArchiveAndWriteOperation ft\<rparr>"

definition new_ArchiveOperation :: "string \<Rightarrow> path \<Rightarrow> operation" where
  "new_ArchiveOperation ft fp =
     (new_WriteOperation fp 0 None)\<lparr>op_class := ArchiveOperation ft\<rparr>"

text \<open>Leaving the \<open>with op.file() as f\<close> block stores what was written to the stream.\<close>

definition set_content :: "string \<Rightarrow> operation \<Rightarrow> operation" where
  "set_content c opr = opr\<lparr>f_content := Some c\<rparr>"

text \<open>\<open>bool(self._content)\<close>: neither \<open>None\<close> nor empty.\<close>

definition is_write :: "operation \<Rightarrow> bool" where
  "is_write opr = (case f_content opr of None \<Rightarrow> False | Some c \<Rightarrow> c \<noteq> [])"

text \<open>
  \<open>tmp_path\<close>: an archiving operation given an archive directory (\<open>archive_dir\<close> is
  \<open>None\<close> for Python's \<open>None\<close> and for the empty string) notes that it archives and
  answers \<open>archive_dir/file_type/basename\<close>; every other one asks \<open>tempfile.mktemp\<close> for
  a name beside the file.
\<close>

definition archive_path :: "operation \<Rightarrow> path option \<Rightarrow> path option" where
  "archive_path opr archive_dir =
     (case op_class opr of
        WriteOperation \<Rightarrow> None
      | ArchiveAndWriteOperation ft \<Rightarrow>
          map_option (\<lambda>ad. ad @ [ft, basename (file_path opr)]) archive_dir
      | ArchiveOperation ft \<Rightarrow>
          map_option (\<lambda>ad. ad @ [ft, basename (file_path opr)]) archive_dir)"

definition tmp_path :: "operation \<Rightarrow> path option \<Rightarrow> world \<Rightarrow> (oserror + path) \<times> operation \<times> world" where
  "tmp_path opr archive_dir w =
     (case archive_path opr archive_dir of
        Some p \<Rightarrow> (Inr p, opr\<lparr>f_archived := True\<rparr>, w)
      | None \<Rightarrow>
          (case mktemp ''.old-'' (dirname (file_path opr)) w of (r, w1) \<Rightarrow> (r, opr, w1)))"

text \<open>
  \<open>WriteOperation.apply\<close> in its three steps: make the directory of the backup path
  (\<open>_rmdir\<close> records that it was made; \<open>FileExistsError\<close> is passed over), move the
  existing file there (when there is none, a directory just made is removed again), and,
  when there is content, write the new file.
\<close>

definition write_content :: "operation \<Rightarrow> world \<Rightarrow> oserror option \<times> operation \<times> world" where
  "write_content opr w =
     (if \<not> is_write opr then (None, opr, w)
      else
        (case os_open (file_path opr) w of
           (Some e, w1) \<Rightarrow> (Some e, opr, w1)
         | (None, w1) \<Rightarrow>
             (case (if mode opr \<noteq> 0
                    then (case os_fchmod (file_path opr) w1 of
                            (Some e, w2) \<Rightarrow>
                              if e = PermissionError
                              then (None, log_msg WARNING ''Unable to set file mode for %s to %s: %s'' w2)
                              else (Some e, w2)
                          | (None, w2) \<Rightarrow> (None, w2))
                    else (None, w1)) of
                (Some e, w2) \<Rightarrow> (Some e, opr, w2)
              | (None, w2) \<Rightarrow>
                  (case (if owner opr \<noteq> None
                         then (case os_fchown (file_path opr) w2 of
                                 (Some e, w3) \<Rightarrow>
                                   if e = PermissionError
                                   then (None, log_msg WARNING ''Unable to set file ownership for %s to %s:%s: %s'' w3)
                                   else (Some e, w3)
                               | (None, w3) \<Rightarrow> (None, w3))
                         else (None, w2)) of
                     (Some e, w3) \<Rightarrow> (Some e, opr, w3)
                   | (None, w3) \<Rightarrow>
                       (case os_write (file_path opr) (the (f_content opr)) w3 of
                          (Some e, w4) \<Rightarrow> (Some e, opr, w4)
                        | (None, w4) \<Rightarrow>
                            (None, opr\<lparr>f_content := None\<rparr>, log_msg DEBUG ''%s saved'' w4))))))"

definition move_existing :: "path \<Rightarrow> operation \<Rightarrow> world \<Rightarrow> oserror option \<times> operation \<times> world" where
  "move_existing tmp opr w =
     (case os_rename (file_path opr) tmp w of
        (None, w1) \<Rightarrow> (None, opr\<lparr>f_tmp_path := Some tmp\<rparr>, w1)
      | (Some e, w1) \<Rightarrow>
          if e = FileNotFoundError
          then (if f_rmdir opr
                then (case removedirs (dirname tmp) w1 of (r, w2) \<Rightarrow> (r, opr, w2))
                else (None, opr, w1))
          else (Some e, opr, w1))"

definition write_apply :: "operation \<Rightarrow> path option \<Rightarrow> world \<Rightarrow> oserror option \<times> operation \<times> world" where
  "write_apply opr archive_dir w =
     (case tmp_path opr archive_dir w of
        (Inl e, opr1, w1) \<Rightarrow> (Some e, opr1, w1)
      | (Inr tmp, opr1, w1) \<Rightarrow>
          (case (case makedirs False (dirname tmp) w1 of
                   (None, w2) \<Rightarrow> (None, opr1\<lparr>f_rmdir := True\<rparr>, w2)
                 | (Some e, w2) \<Rightarrow>
                     if e = FileExistsError then (None, opr1, w2) else (Some e, opr1, w2)) of
             (Some e, opr2, w2) \<Rightarrow> (Some e, opr2, w2)
           | (None, opr2, w2) \<Rightarrow>
               (case move_existing tmp opr2 w2 of
                  (Some e, opr3, w3) \<Rightarrow> (Some e, opr3, w3)
                | (None, opr3, w3) \<Rightarrow> write_content opr3 w3)))"

text \<open>\<open>apply\<close> as dispatched: the archiving classes add a log line to the inherited method.\<close>

definition op_apply :: "operation \<Rightarrow> path option \<Rightarrow> world \<Rightarrow> oserror option \<times> operation \<times> world" where
  "op_apply opr archive_dir w =
     (case write_apply opr archive_dir w of
        (Some e, opr1, w1) \<Rightarrow> (Some e, opr1, w1)
      | (None, opr1, w1) \<Rightarrow>
          if op_class opr1 \<noteq> WriteOperation \<and> f_tmp_path opr1 \<noteq> None \<and> f_archived opr1
          then (None, opr1, log_msg DEBUG ''%s archived'' w1)
          else (None, opr1, w1))"

text \<open>
  \<open>revert\<close>: remove the file at the path (a missing one is passed over), then move the
  backup, when one was recorded, back to the path.
\<close>

definition op_revert :: "operation \<Rightarrow> world \<Rightarrow> oserror option \<times> operation \<times> world" where
  "op_revert opr w =
     (case (case os_remove (file_path opr) w of
              (None, w1) \<Rightarrow> (None, log_msg DEBUG ''%s removed'' w1)
            | (Some e, w1) \<Rightarrow> if e = FileNotFoundError then (None, w1) else (Some e, w1)) of
        (Some e, w1) \<Rightarrow> (Some e, opr, w1)
      | (None, w1) \<Rightarrow>
          (case f_tmp_path opr of
             None \<Rightarrow> (None, opr, w1)
           | Some tmp \<Rightarrow>
               (case os_rename tmp (file_path opr) w1 of
                  (Some e, w2) \<Rightarrow> (Some e, opr, w2)
                | (None, w2) \<Rightarrow>
                    (None, opr\<lparr>f_tmp_path := None\<rparr>, log_msg DEBUG ''%s restored'' w2))))"

text \<open>
  \<open>cleanup\<close>: an operation that archived keeps its backup; any other removes the backup
  and, when \<open>apply\<close> made the directory, prunes it (errors of both are passed over).
\<close>

definition write_cleanup :: "operation \<Rightarrow> world \<Rightarrow> oserror option \<times> operation \<times> world" where
  "write_cleanup opr w =
     (case f_tmp_path opr of
        None \<Rightarrow> (None, opr, w)
      | Some tmp \<Rightarrow>
          (case (case os_remove tmp w of
                   (None, w1) \<Rightarrow> (None, w1)
                 | (Some e, w1) \<Rightarrow> if e = FileNotFoundError then (None, w1) else (Some e, w1)) of
             (Some e, w1) \<Rightarrow> (Some e, opr, w1)
           | (None, w1) \<Rightarrow>
               (None, opr\<lparr>f_tmp_path := None\<rparr>,
                if f_rmdir opr then snd (removedirs (dirname tmp) w1) else w1)))"

definition op_cleanup :: "operation \<Rightarrow> world \<Rightarrow> oserror option \<times> operation \<times> world" where
  "op_cleanup opr w =
     (if op_class opr \<noteq> WriteOperation \<and> f_archived opr then (None, opr, w)
      else write_cleanup opr w)"

subsection \<open>commit_file_transactions\<close>

text \<open>
  The \<open>for\<close> loop of the \<open>try\<close> block: apply each operation and append it to
  \<open>applied\<close>; the first exception ends the loop, and the operation that raised it is not
  appended.
\<close>

fun apply_loop ::
  "path option \<Rightarrow> operation list \<Rightarrow> operation list \<Rightarrow> world \<Rightarrow> oserror option \<times> operation list \<times> world" where
  "apply_loop archive_dir [] applied w = (None, applied, w)"
| "apply_loop archive_dir (opr # operations) applied w =
     (case op_apply opr archive_dir (emit (Apply (file_path opr)) w) of
        (Some e, opr1, w1) \<Rightarrow> (Some e, applied, w1)
      | (None, opr1, w1) \<Rightarrow> apply_loop archive_dir operations (applied @ [opr1]) w1)"

text \<open>The loop of the \<open>except\<close> block: \<open>for op in applied\<close>, an error of \<open>revert\<close> is logged.\<close>

fun revert_loop :: "operation list \<Rightarrow> world \<Rightarrow> world" where
  "revert_loop [] w = w"
| "revert_loop (opr # applied) w =
     (case op_revert opr (emit (Revert (file_path opr)) w) of
        (Some e, opr1, w1) \<Rightarrow> revert_loop applied (log_msg ERROR ''reverting operation %s failed: %s'' w1)
      | (None, opr1, w1) \<Rightarrow> revert_loop applied w1)"

text \<open>The loop of the \<open>else\<close> block: \<open>for op in applied\<close>, an error of \<open>cleanup\<close> is logged.\<close>

fun cleanup_loop :: "operation list \<Rightarrow> world \<Rightarrow> world" where
  "cleanup_loop [] w = w"
| "cleanup_loop (opr # applied) w =
     (case op_cleanup opr (emit (Cleanup (file_path opr)) w) of
        (Some e, opr1, w1) \<Rightarrow> cleanup_loop applied (log_msg ERROR ''cleanup operation %s failed: %s'' w1)
      | (None, opr1, w1) \<Rightarrow> cleanup_loop applied w1)"

definition commit_file_transactions :: "operation list \<Rightarrow> path option \<Rightarrow> world \<Rightarrow> oserror option \<times> world" where
  "commit_file_transactions operations archive_dir w =
     (if operations = [] then (None, w)
      else
        (case apply_loop archive_dir operations [] (log_msg DEBUG ''Committing file transaction'' w) of
           (Some e, applied, w1) \<Rightarrow>
             (Some e, revert_loop applied (log_msg ERROR ''File transaction error. Rolling back changes'' w1))
         | (None, applied, w1) \<Rightarrow> (None, cleanup_loop applied w1)))"

subsection \<open>A full disk\<close>

text \<open>
  A resource directory holding the account key, and a disk that is full: writing the
  key file fails.
\<close>

definition full_disk :: world where
  "full_disk =
     \<lparr>nodes = [([''r''], Dir), ([''r'', ''client.key''], File ''OLD'')],
      faults = (\<lambda>c. if c = SysWrite [''r'', ''client.key''] then Some DeviceError else None),
      tmp_names = [''abc''], log = [], trace = []\<rparr>"

definition write_key :: operation where
  "write_key = set_content ''NEW'' (new_WriteOperation [''r'', ''client.key''] 384 None)"

section \<open>Verification of an installed certificate (acmebot/verify.py)\<close>

text \<open>
  The network as \<open>_verify_certificate_installation\<close> sees it. An address is an entry of
  \<open>socket.getaddrinfo\<close>, kept by its family and its numeric host. \<open>fetch_tls_info\<close>
  (connect, the optional STARTTLS upgrade, the handshake with SNI and a request for an
  OCSP staple) is one step: the peer's answer to the n-th connection of the run is
  \<open>handshake n addr host_name\<close>, \<open>None\<close> when anything in it raises, else the peer's
  certificates (each by its DER bytes) and the staple (by the status
  \<open>ocsp_response_status\<close> reads from it), \<open>None\<close> when the peer sent no staple.
  \<open>getaddrinfo host port\<close> is \<open>None\<close> when the lookup raises. \<open>net_events\<close> records the
  lookups, connections and sleeps of the run, \<open>vlog\<close> the logger's messages (level and
  format string).
\<close>

record address =
  inet6 :: bool
  numeric_host :: string

type_synonym tls_info = "string list \<times> string option"

datatype net_event = GetAddrInfo string int | Connect address string | Sleep int

datatype verify_error = ConnectionFailed | ValueError | IndexError

record net =
  getaddrinfo :: "string \<Rightarrow> int \<Rightarrow> address list option"
  handshake :: "nat \<Rightarrow> address \<Rightarrow> string \<Rightarrow> tls_info option"
  net_events :: "net_event list"
  vlog :: "(level \<times> string) list"

record certificate_item =
  item_certificate :: string
  item_chain :: "string list"
  has_oscp_must_staple :: bool

text \<open>\<open>str.lower\<close> on the ASCII letters.\<close>

definition lower :: "string \<Rightarrow> string" where
  "lower s = map (\<lambda>c. if 65 \<le> (of_char c :: nat) \<and> (of_char c :: nat) \<le> 90
                      then char_of (of_char c + (32::nat)) else c) s"

definition vlog_msg :: "level \<Rightarrow> string \<Rightarrow> net \<Rightarrow> net" where
  "vlog_msg l m w = w\<lparr>vlog := vlog w @ [(l, m)]\<rparr>"

fun is_connect :: "net_event \<Rightarrow> bool" where
  "is_connect (Connect a h) = True"
| "is_connect e = False"

fun is_sleep :: "net_event \<Rightarrow> bool" where
  "is_sleep (Sleep d) = True"
| "is_sleep e = False"

text \<open>\<open>time.sleep\<close> raises \<open>ValueError\<close> for a negative length.\<close>

definition time_sleep :: "int \<Rightarrow> net \<Rightarrow> verify_error option \<times> net" where
  "time_sleep d w =
     (if d < 0 then (Some ValueError, w)
      else (None, w\<lparr>net_events := net_events w @ [Sleep d]\<rparr>))"

definition fetch_tls_info :: "address \<Rightarrow> string \<Rightarrow> net \<Rightarrow> (verify_error + tls_info) \<times> net" where
  "fetch_tls_info addr host_name w =
     (let w1 = w\<lparr>net_events := net_events w @ [Connect addr host_name]\<rparr> in
      case handshake w (length (filter is_connect (net_events w))) addr host_name of
        None \<Rightarrow> (Inl ConnectionFailed, w1)
      | Some info \<Rightarrow>
          (Inr info, vlog_msg DEBUG ''Connected to %s, protocol %s, cipher %s, OCSP Staple %s'' w1))"

text \<open>
  The loop of lines 112 to 117, entered with \<open>attempts = 1\<close> after the first fetch: while
  there is no staple and \<open>attempts < max_ocsp_verify_attempts\<close>, sleep, fetch again and
  count.
\<close>

function ocsp_retry ::
  "int \<Rightarrow> int \<Rightarrow> address \<Rightarrow> string \<Rightarrow> int \<Rightarrow> tls_info \<Rightarrow> net \<Rightarrow> (verify_error + tls_info) \<times> net" where
  "ocsp_retry max_ocsp_verify_attempts ocsp_verify_retry_delay addr host_name attempts info w =
     (if snd info = None \<and> attempts < max_ocsp_verify_attempts then
        (case time_sleep ocsp_verify_retry_delay w of
           (Some e, w1) \<Rightarrow> (Inl e, w1)
         | (None, w1) \<Rightarrow>
             (case fetch_tls_info addr host_name (vlog_msg DEBUG ''Retry to fetch OCSP staple'' w1) of
                (Inl e, w2) \<Rightarrow> (Inl e, w2)
              | (Inr info', w2) \<Rightarrow>
                  ocsp_retry max_ocsp_verify_attempts ocsp_verify_retry_delay addr host_name
                    (attempts + 1) info' w2))
      else (Inr info, w))"
  by pat_completeness auto

termination
  by (relation "measure (\<lambda>(m, d, a, h, attempts, i, w). nat (m - attempts))") auto

declare ocsp_retry.simps [simp del]

text \<open>Lines 129 to 135: one message for each pair of the two chains.\<close>

fun compare_chains :: "string list \<Rightarrow> string list \<Rightarrow> net \<Rightarrow> net" where
  "compare_chains (c # cs) (d # ds) w =
     compare_chains cs ds
       (if c = d then vlog_msg INFO ''[%s:%s] Intermediate certificate %s present on %s'' w
        else vlog_msg ERROR ''[%s:%s] VALIDATION ERROR: Intermediate certificate %s mismatch on %s'' w)"
| "compare_chains cs ds w = w"

text \<open>Lines 119 to 146: what is reported about the certificates and the staple fetched last.\<close>

definition report_installation :: "certificate_item \<Rightarrow> tls_info \<Rightarrow> net \<Rightarrow> verify_error option \<times> net" where
  "report_installation item info w =
     (case fst info of
        [] \<Rightarrow> (Some IndexError, w)
      | installed_certificate # installed_chain \<Rightarrow>
          (let w1 = (if item_certificate item = installed_certificate
                     then vlog_msg INFO ''[%s:%s] certificate present on %s'' w
                     else vlog_msg ERROR ''[%s:%s] VALIDATION ERROR: certificate %s mismatch on %s'' w);
               w2 = (if length (item_chain item) \<noteq> length installed_chain
                     then vlog_msg ERROR ''[%s:%s] VALIDATION ERROR: certificate chain length mismatch on %s, got %s intermediate(s), expected %s'' w1
                     else compare_chains (item_chain item) installed_chain w1)
           in (case snd info of
                 Some ocsp_status \<Rightarrow>
                   (let w3 = vlog_msg DEBUG ''Verify OCSP response status'' w2 in
                    if lower ocsp_status = ''good''
                    then (None, vlog_msg INFO ''OCSP staple status is GOOD on %s'' w3)
                    else (None, vlog_msg ERROR ''ERROR: OCSP staple has status: %s on %s'' w3))
               | None \<Rightarrow>
                   if has_oscp_must_staple item
                   then (None, vlog_msg ERROR ''[%s:%s] VALIDATION ERROR: Certificate has OCSP Must-Staple but no OSCP staple found on %s'' w2)
                   else (None, w2))))"

text \<open>The body of the \<open>try\<close> of lines 108 to 146, for one address.\<close>

definition probe_address ::
  "certificate_item \<Rightarrow> string \<Rightarrow> int \<Rightarrow> int \<Rightarrow> address \<Rightarrow> net \<Rightarrow> verify_error option \<times> net" where
  "probe_address item host_name max_ocsp_verify_attempts ocsp_verify_retry_delay addr w =
     (case fetch_tls_info addr host_name (vlog_msg DEBUG ''Connecting to %s with %s ciphers'' w) of
        (Inl e, w1) \<Rightarrow> (Some e, w1)
      | (Inr info, w1) \<Rightarrow>
          (case (if has_oscp_must_staple item
                 then ocsp_retry max_ocsp_verify_attempts ocsp_verify_retry_delay addr host_name 1 info w1
                 else (Inr info, w1)) of
             (Inl e, w2) \<Rightarrow> (Some e, w2)
           | (Inr info', w2) \<Rightarrow> report_installation item info' w2))"

text \<open>One turn of the loop over the addresses: an exception is logged and the loop goes on.\<close>

definition verify_address ::
  "certificate_item \<Rightarrow> string \<Rightarrow> int \<Rightarrow> int \<Rightarrow> address \<Rightarrow> net \<Rightarrow> net" where
  "verify_address item host_name max_ocsp_verify_attempts ocsp_verify_retry_delay addr w =
     (case probe_address item host_name max_ocsp_verify_attempts ocsp_verify_retry_delay addr w of
        (Some e, w1) \<Rightarrow> vlog_msg ERROR ''[%s:%s] VALIDATION ERROR: Unable to connect to %s: %s'' w1
      | (None, w1) \<Rightarrow> w1)"

text \<open>
  \<open>_verify_certificate_installation\<close>. A host name that starts with \<open>*.\<close> is replaced
  by \<open>wildcard-test.\<close> and what follows the two characters, before the lookup.
\<close>

definition verify_certificate_installation_1 ::
  "certificate_item \<Rightarrow> string \<Rightarrow> int \<Rightarrow> int \<Rightarrow> int \<Rightarrow> net \<Rightarrow> net" where
  "verify_certificate_installation_1 item host_name port_number max_ocsp_verify_attempts ocsp_verify_retry_delay w =
     (let host_name = (if take 2 host_name = ''*.'' then ''wildcard-test.'' @ drop 2 host_name else host_name);
          w1 = w\<lparr>net_events := net_events w @ [GetAddrInfo host_name port_number]\<rparr>
      in case getaddrinfo w host_name port_number of
           None \<Rightarrow> vlog_msg ERROR ''[%s:%s] VALIDATION ERROR: Unable to get address for %s: %s'' w1
         | Some addr_info \<Rightarrow>
             fold (verify_address item host_name max_ocsp_verify_attempts ocsp_verify_retry_delay) addr_info w1)"

fun event_host :: "net_event \<Rightarrow> string list" where
  "event_host (GetAddrInfo h p) = [h]"
| "event_host (Connect a h) = [h]"
| "event_host (Sleep d) = []"

definition contacted :: "net \<Rightarrow> string list" where
  "contacted w = concat (map event_host (net_events w))"

text \<open>The events a run adds to those of the world it starts in.\<close>

definition new_events :: "net \<Rightarrow> net \<Rightarrow> net_event list" where
  "new_events w w' = drop (length (net_events w)) (net_events w')"

text \<open>
  The connections to the resolved addresses, in their order: to each address the first
  connection and then a number of retries, each after a sleep.
\<close>

definition dialled :: "string \<Rightarrow> int \<Rightarrow> address list \<Rightarrow> nat list \<Rightarrow> net_event list" where
  "dialled h d addrs ks =
     concat (map (\<lambda>(a, k). Connect a h # concat (replicate k [Sleep d, Connect a h])) (zip addrs ks))"

subsection \<open>A server that never staples\<close>

definition example_net :: net where
  "example_net = \<lparr>getaddrinfo = (\<lambda>h p. if h = ''wildcard-test.example.com'' \<or> h = ''www.example.com''
                                        then Some [\<lparr>inet6 = False, numeric_host = ''192.0.2.1''\<rparr>] else None),
                  handshake = (\<lambda>n a h. Some ([''leaf'', ''intermediate''], None)),
                  net_events = [], vlog = []\<rparr>"

definition example_item :: certificate_item where
  "example_item = \<lparr>item_certificate = ''leaf'', item_chain = [''intermediate''], has_oscp_must_staple = True\<rparr>"

definition plain_item :: certificate_item where
  "plain_item = \<lparr>item_certificate = ''leaf'', item_chain = [''intermediate''], has_oscp_must_staple = False\<rparr>"

section \<open>Hooks (certlib/utils.py)\<close>

text \<open>
  The configuration maps a hook name to nothing (\<open>None\<close>), to one command or to a list of
  commands; a command is a string, split into its arguments by \<open>shlex.split\<close>, or a
  dict, of which only the entry \<open>args\<close> is read (\<open>Options None\<close> is a dict without that
  entry). \<open>commands name = None\<close> says that the configuration has no such key.
\<close>

datatype hook_command = Command string | Options "string list option"

datatype hook_config = Unset | One hook_command | Several "hook_command list"

datatype hook_error = KeyError string | OtherError

text \<open>
  What the library does is given by the state: \<open>str_format template kwargs\<close> is the
  result of \<open>template.format(**kwargs)\<close>, which is the text, a \<open>KeyError\<close> for a key that
  \<open>kwargs\<close> lacks, or another exception (a malformed template, a positional field);
  \<open>shlex_split\<close> is \<open>None\<close> when \<open>shlex.split\<close> raises (an open quotation);
  \<open>check_output n argv\<close> is what the n-th subprocess of the run does when started with
  \<open>argv\<close>.
\<close>

datatype format_result = Formatted string | UnknownKey string | Malformed

datatype process_result = Output string | CalledProcessError int string | NotStarted

text \<open>
  \<open>queue\<close> is the ordered dict \<open>_hooks\<close>: the hook names in the order in which they
  were first added, each with its queued invocations (kept by their \<open>args\<close>, the one entry
  \<open>call\<close> reads). \<open>started\<close> lists the argument vectors given to
  \<open>subprocess.check_output\<close> so far.
\<close>

record hooks =
  commands :: "string \<Rightarrow> hook_config option"
  str_format :: "string \<Rightarrow> (string \<times> string) list \<Rightarrow> format_result"
  shlex_split :: "string \<Rightarrow> string list option"
  check_output :: "nat \<Rightarrow> string list \<Rightarrow> process_result"
  queue :: "(string \<times> string list list) list"
  started :: "string list list"
  hlog :: "(level \<times> string) list"

definition hlog_msg :: "level \<Rightarrow> string \<Rightarrow> hooks \<Rightarrow> hooks" where
  "hlog_msg l m h = h\<lparr>hlog := hlog h @ [(l, m)]\<rparr>"

text \<open>\<open>[arg.format(**kwargs) for arg in hook['args']]\<close>: the first exception ends it.\<close>

fun format_args ::
  "(string \<Rightarrow> (string \<times> string) list \<Rightarrow> format_result) \<Rightarrow> (string \<times> string) list \<Rightarrow> string list \<Rightarrow>
   hook_error + string list" where
  "format_args fmt kwargs [] = Inr []"
| "format_args fmt kwargs (arg # args) =
     (case fmt arg kwargs of
        UnknownKey k \<Rightarrow> Inl (KeyError k)
      | Malformed \<Rightarrow> Inl OtherError
      | Formatted s \<Rightarrow>
          (case format_args fmt kwargs args of
             Inl e \<Rightarrow> Inl e
           | Inr ss \<Rightarrow> Inr (s # ss)))"

text \<open>The arguments of one command, before substitution.\<close>

definition hook_args :: "hooks \<Rightarrow> hook_command \<Rightarrow> hook_error + string list" where
  "hook_args h hook =
     (case hook of
        Command line \<Rightarrow> (case shlex_split h line of None \<Rightarrow> Inl OtherError | Some args \<Rightarrow> Inr args)
      | Options None \<Rightarrow> Inl (KeyError ''args'')
      | Options (Some args) \<Rightarrow> Inr args)"

text \<open>\<open>self._hooks[hook_name].append(hook)\<close>, the name being in the dict.\<close>

fun append_hook :: "string \<Rightarrow> string list \<Rightarrow> (string \<times> string list list) list \<Rightarrow> (string \<times> string list list) list" where
  "append_hook name argv [] = []"
| "append_hook name argv ((n, hs) # q) =
     (if n = name then (n, hs @ [argv]) # q else (n, hs) # append_hook name argv q)"

text \<open>The loop of \<open>add\<close> over the commands of the hook, inside its \<open>try\<close>.\<close>

fun add_hooks :: "string \<Rightarrow> (string \<times> string) list \<Rightarrow> hook_command list \<Rightarrow> hooks \<Rightarrow> hook_error option \<times> hooks" where
  "add_hooks hook_name kwargs [] h = (None, h)"
| "add_hooks hook_name kwargs (hook # rest) h =
     (case hook_args h hook of
        Inl e \<Rightarrow> (Some e, h)
      | Inr args \<Rightarrow>
          (case format_args (str_format h) kwargs args of
             Inl e \<Rightarrow> (Some e, h)
           | Inr argv \<Rightarrow> add_hooks hook_name kwargs rest (h\<lparr>queue := append_hook hook_name argv (queue h)\<rparr>)))"

text \<open>
  \<open>Hooks.add\<close>. The look-up of the name in the configuration is outside the \<open>try\<close>; a
  hook that is not set (or is empty) adds nothing; the \<open>except\<close> catches \<open>KeyError\<close> only.
\<close>

definition Hooks_add :: "string \<Rightarrow> (string \<times> string) list \<Rightarrow> hooks \<Rightarrow> hook_error option \<times> hooks" where
  "Hooks_add hook_name kwargs h =
     (case commands h hook_name of
        None \<Rightarrow> (Some (KeyError hook_name), h)
      | Some conf \<Rightarrow>
          if conf = Unset \<or> conf = One (Command []) \<or> conf = Several [] then (None, h)
          else
            (let h1 = (if hook_name \<in> set (map fst (queue h)) then h
                       else h\<lparr>queue := queue h @ [(hook_name, [])]\<rparr>);
                 hooks = (case conf of One hook \<Rightarrow> [hook] | Several hs \<Rightarrow> hs | Unset \<Rightarrow> [])
             in case add_hooks hook_name kwargs hooks h1 of
                  (Some (KeyError k), h2) \<Rightarrow>
                    (None, hlog_msg WARNING ''Invalid hook specification for %s, unknown key %s'' h2)
                | (r, h2) \<Rightarrow> (r, h2)))"

text \<open>One queued invocation: both \<open>except\<close> clauses log a warning and the loop goes on.\<close>

definition call_hook :: "string list \<Rightarrow> hooks \<Rightarrow> hooks" where
  "call_hook argv h =
     (let h1 = (hlog_msg INFO ''Calling hook %s: %s'' h)\<lparr>started := started h @ [argv]\<rparr> in
      case check_output h (length (started h)) argv of
        Output out \<Rightarrow> hlog_msg INFO out h1
      | CalledProcessError code out \<Rightarrow> hlog_msg WARNING ''Hook %s returned error, code: %s:\<newline>%s'' h1
      | NotStarted \<Rightarrow> hlog_msg WARNING ''Failed to call hook %s (%s): %s'' h1)"

text \<open>\<open>Hooks.call\<close>: every name of the dict in turn, every invocation queued under it, then \<open>_clear_hooks\<close>.\<close>

definition Hooks_call :: "hooks \<Rightarrow> hooks" where
  "Hooks_call h = (fold (\<lambda>(hook_name, hs) h'. fold call_hook hs h') (queue h) h)\<lparr>queue := []\<rparr>"

text \<open>A caller's calls of \<open>add\<close>, one after another, each given by the hook name and the keyword arguments.\<close>

definition add_each :: "(string \<times> (string \<times> string) list) list \<Rightarrow> hooks \<Rightarrow> hooks" where
  "add_each adds h = fold (\<lambda>(hook_name, kwargs) h'. snd (Hooks_add hook_name kwargs h')) adds h"

text \<open>
  The invocation a call of \<open>add\<close> stands for when the hook is configured as one dict
  and the substitution succeeds.
\<close>

definition resolved ::
  "(string \<Rightarrow> hook_config option) \<Rightarrow> (string \<Rightarrow> (string \<times> string) list \<Rightarrow> format_result) \<Rightarrow>
   string \<times> (string \<times> string) list \<Rightarrow> (string \<times> string list) option" where
  "resolved conf fmt a =
     (case conf (fst a) of
        Some (One (Options (Some args))) \<Rightarrow>
          (case format_args fmt (snd a) args of
             Inr argv \<Rightarrow> Some (fst a, argv)
           | Inl e \<Rightarrow> None)
      | _ \<Rightarrow> None)"

text \<open>
  The order by hook name: the names in the order of their first occurrence, and under each
  name its invocations in the order in which they were added.
\<close>

definition first_added :: "string list \<Rightarrow> string list" where
  "first_added names = rev (remdups (rev names))"

definition by_hook_name :: "(string \<times> string list) list \<Rightarrow> string list list" where
  "by_hook_name invocations =
     concat (map (\<lambda>name. map snd (filter (\<lambda>i. fst i = name) invocations))
                 (first_added (map fst invocations)))"


subsection \<open>Two hooks\<close>

definition two_hooks :: hooks where
  "two_hooks =
     \<lparr>commands = (\<lambda>n. if n = ''set_http_challenge'' then Some (One (Options (Some [''set'', ''{domain}''])))
                      else if n = ''clear_http_challenge'' then Some (One (Options (Some [''clear'', ''{domain}''])))
                      else if n = ''bad'' then Some (One (Options (Some [''bad'', ''{nokey}''])))
                      else None),
      str_format = (\<lambda>t kw. if t = ''{domain}'' then (case map_of kw ''domain'' of Some v \<Rightarrow> Formatted v | None \<Rightarrow> UnknownKey ''domain'')
                            else if t = ''{nokey}'' then (case map_of kw ''nokey'' of Some v \<Rightarrow> Formatted v | None \<Rightarrow> UnknownKey ''nokey'')
                            else Formatted t),
      shlex_split = (\<lambda>s. Some [s]),
      check_output = (\<lambda>n argv. if argv = [''set'', ''b.org''] then CalledProcessError 1 ''no'' else Output ''ok''),
      queue = [], started = [], hlog = []\<rparr>"



section \<open>Authorizations (certlib/acme.py)\<close>

text \<open>
  What the code reads of the ACME messages: of a challenge its type, its token
  (\<open>chall.encode('token')\<close>), the validation string and the detail of its error (\<open>None\<close>
  when it has no error); of an authorization resource the identifier, the status, the
  challenges and the URI; of a response the status code and the delay its
  \<open>Retry-After\<close> header gives, in seconds. Two resources are equal when their fields are,
  as the \<open>acme\<close> library compares them.
\<close>

datatype status = STATUS_PENDING | STATUS_VALID | STATUS_INVALID | STATUS_OTHER string

record challenge =
  chall_typ :: string
  chall_token :: string
  chall_validation :: string
  chall_error :: "string option"

record authorization_resource =
  auth_identifier :: string
  auth_status :: status
  auth_challenges :: "challenge list"
  auth_uri :: string

record response =
  status_code :: int
  retry_after_header :: "int option"

text \<open>
  The exceptions that leave the functions below: \<open>AcmeError\<close> with its format string
  (written without quote characters) and those of its arguments that are names, an
  \<open>OSError\<close>, what \<open>Hooks.add\<close> raises, and the \<open>AttributeError\<close> of an attribute read
  on \<open>None\<close>.
\<close>

datatype exn = AcmeError string "string list" | OSErr oserror | HookErr hook_error | AttributeError

text \<open>
  The ACME client and the clock. \<open>answer_ok c\<close> says whether \<open>answer_challenge\<close>
  returns for the challenge \<open>c\<close>; \<open>poll_answer n r\<close> is what the n-th call of \<open>poll\<close> of
  the run returns for the resource \<open>r\<close>, \<open>None\<close> when it raises. \<open>polls\<close> counts the
  calls of \<open>poll\<close>, \<open>answered\<close> lists the challenges answered, \<open>clock\<close> is the time in
  seconds, which only \<open>time.sleep\<close> advances, \<open>slept\<close> lists the sleeps and \<open>alog\<close> the
  messages logged.
\<close>

record acme =
  answer_ok :: "challenge \<Rightarrow> bool"
  poll_answer :: "nat \<Rightarrow> authorization_resource \<Rightarrow> (authorization_resource \<times> response) option"
  polls :: nat
  answered :: "challenge list"
  clock :: int
  slept :: "int list"
  alog :: "(level \<times> string) list"

definition alog_msg :: "level \<Rightarrow> string \<Rightarrow> acme \<Rightarrow> acme" where
  "alog_msg l m s = s\<lparr>alog := alog s @ [(l, m)]\<rparr>"

definition get_challenge :: "authorization_resource \<Rightarrow> string \<Rightarrow> challenge option" where
  "get_challenge authorization_resource ty =
     find (\<lambda>challenge. ty = chall_typ challenge) (auth_challenges authorization_resource)"

definition status_name :: "status \<Rightarrow> string" where
  "status_name st =
     (case st of STATUS_PENDING \<Rightarrow> ''pending'' | STATUS_VALID \<Rightarrow> ''valid''
      | STATUS_INVALID \<Rightarrow> ''invalid'' | STATUS_OTHER n \<Rightarrow> n)"

subsection \<open>The poll loop\<close>

text \<open>Lines 215 to 221: the challenges are answered, one resource after the other.\<close>

fun answer_challenges :: "(string \<times> authorization_resource) list \<Rightarrow> acme \<Rightarrow> exn option \<times> acme" where
  "answer_challenges [] s = (None, s)"
| "answer_challenges ((domain_name, authorization_resource) # rest) s =
     (let s1 = alog_msg DEBUG ''Answering challenge for %s'' s in
      case get_challenge authorization_resource ''http-01'' of
        None \<Rightarrow> (Some (AcmeError ''Error answering challenge for {}'' [domain_name]), s1)
      | Some challenge \<Rightarrow>
          if answer_ok s1 challenge
          then answer_challenges rest (s1\<lparr>answered := answered s1 @ [challenge]\<rparr>)
          else (Some (AcmeError ''Error answering challenge for {}'' [domain_name]), s1))"

text \<open>
  Lines 230 to 235: when the time of the entry is still ahead, sleep for the \<open>seconds\<close>
  of the difference (a \<open>timedelta\<close> keeps its days apart).
\<close>

definition wait_until :: "int \<Rightarrow> acme \<Rightarrow> acme" where
  "wait_until when s =
     (if clock s < when then
        (let seconds = (when - clock s) mod 86400 in
         if 0 < seconds
         then alog_msg DEBUG ''Polling for %s'' (s\<lparr>clock := clock s + seconds, slept := slept s @ [seconds]\<rparr>)
         else s)
      else s)"

definition client_poll ::
  "authorization_resource \<Rightarrow> acme \<Rightarrow> (authorization_resource \<times> response) option \<times> acme" where
  "client_poll authorization_resource s =
     (poll_answer s (polls s) authorization_resource, s\<lparr>polls := polls s + 1\<rparr>)"

text \<open>\<open>acme_client.retry_after(response, default)\<close>: the time now plus the delay of the header, or plus the default.\<close>

definition retry_after :: "response \<Rightarrow> int \<Rightarrow> acme \<Rightarrow> int" where
  "retry_after response default_delay s =
     clock s + (case retry_after_header response of Some n \<Rightarrow> n | None \<Rightarrow> default_delay)"

text \<open>
  The \<open>while waiting\<close> loop of lines 228 to 261. The loop need not end (a server may
  answer with another status code for ever), so it is given fuel, one unit for each turn:
  the result is \<open>None\<close> when the fuel runs out, \<open>Some (Inl e)\<close> when the loop raises \<open>e\<close>
  and \<open>Some (Inr authorizations)\<close> when it ends. \<open>attempts\<close> is the \<open>defaultdict(int)\<close>,
  keyed by the resource that \<open>poll\<close> returned.
\<close>

fun poll_loop ::
  "nat \<Rightarrow> int \<Rightarrow> int \<Rightarrow> (int \<times> string \<times> authorization_resource) list \<Rightarrow>
   (authorization_resource \<Rightarrow> int) \<Rightarrow> authorization_resource list \<Rightarrow> acme \<Rightarrow>
   (exn + authorization_resource list) option \<times> acme" where
  "poll_loop 0 retry delay waiting attempts authorizations s = (None, s)"
| "poll_loop (Suc fuel) retry delay [] attempts authorizations s = (Some (Inr authorizations), s)"
| "poll_loop (Suc fuel) retry delay ((when, domain_name, authorization_resource) # waiting) attempts authorizations s =
     (case client_poll authorization_resource (wait_until when s) of
        (None, s1) \<Rightarrow> (Some (Inl (AcmeError ''Error polling for authorization for {}'' [domain_name])), s1)
      | (Some (authorization_resource, response), s1) \<Rightarrow>
          if 200 \<noteq> status_code response then
            poll_loop fuel retry delay
              (waiting @ [(retry_after response delay s1, domain_name, authorization_resource)])
              attempts authorizations
              (alog_msg WARNING ''%s while waiting for domain challenge for %s'' s1)
          else
            (let attempts = attempts(authorization_resource := attempts authorization_resource + 1) in
             case auth_status authorization_resource of
               STATUS_VALID \<Rightarrow>
                 poll_loop fuel retry delay waiting attempts (authorizations @ [authorization_resource])
                   (alog_msg INFO ''Domain %s authorized'' s1)
             | STATUS_INVALID \<Rightarrow>
                 (case get_challenge authorization_resource ''http-01'' of
                    None \<Rightarrow> (Some (Inl AttributeError), s1)
                  | Some challenge \<Rightarrow>
                      (Some (Inl (AcmeError ''Authorization failed for domain {}: {}''
                         [domain_name, case chall_error challenge of Some detail \<Rightarrow> detail | None \<Rightarrow> ''Unknown error''])), s1))
             | STATUS_PENDING \<Rightarrow>
                 if attempts authorization_resource > retry then
                   (Some (Inl (AcmeError ''Authorization timed out for {}'' [domain_name])),
                    alog_msg DEBUG ''Max retry reached for domain %s'' s1)
                 else
                   poll_loop fuel retry delay
                     (waiting @ [(retry_after response delay s1, domain_name, authorization_resource)])
                     attempts authorizations (alog_msg DEBUG ''Retrying'' s1)
             | STATUS_OTHER n \<Rightarrow>
                 (Some (Inl (AcmeError ''Unexpected authorization status {}'' [n])), s1)))"

text \<open>\<open>_get_authorizations\<close>: answer, then poll, every entry of the queue being due now.\<close>

definition get_authorizations ::
  "nat \<Rightarrow> (string \<times> authorization_resource) list \<Rightarrow> int \<Rightarrow> int \<Rightarrow> acme \<Rightarrow>
   (exn + authorization_resource list) option \<times> acme" where
  "get_authorizations fuel authorization_resources retry delay s =
     (case answer_challenges authorization_resources s of
        (Some e, s1) \<Rightarrow> (Some (Inl e), s1)
      | (None, s1) \<Rightarrow>
          poll_loop fuel retry delay
            (map (\<lambda>(domain_name, authorization_resource). (clock s1, domain_name, authorization_resource))
               authorization_resources)
            (\<lambda>r. 0) [] s1)"

subsection \<open>A server that answers pending for ever\<close>

definition pending_example :: authorization_resource where
  "pending_example =
     \<lparr>auth_identifier = ''a.org'', auth_status = STATUS_PENDING,
      auth_challenges = [\<lparr>chall_typ = ''http-01'', chall_token = ''tok'', chall_validation = ''tok.key'',
                           chall_error = None\<rparr>],
      auth_uri = ''https://ca.test/authz/1''\<rparr>"

definition pending_server :: acme where
  "pending_server =
     \<lparr>answer_ok = (\<lambda>c. True),
      poll_answer = (\<lambda>n r. Some (pending_example, \<lparr>status_code = 200, retry_after_header = None\<rparr>)),
      polls = 0, answered = [], clock = 0, slept = [], alog = []\<rparr>"

subsection \<open>handle_authorizations\<close>

text \<open>
  The function works on the file system, on the hooks and on the ACME client: the three
  states side by side. Its messages go to the log of the client.
\<close>

record session =
  fs :: world
  hk :: hooks
  ac :: acme

definition slog :: "level \<Rightarrow> string \<Rightarrow> session \<Rightarrow> session" where
  "slog l m ss = ss\<lparr>ac := alog_msg l m (ac ss)\<rparr>"

text \<open>A path as the string given to a hook.\<close>

definition path_str :: "path \<Rightarrow> string" where
  "path_str p = concat (map (\<lambda>c. CHR ''/'' # c) p)"

text \<open>An assignment \<open>d[k] = v\<close> to an ordered dict: a key it has keeps its place.\<close>

fun dict_set :: "'k \<Rightarrow> 'v \<Rightarrow> ('k \<times> 'v) list \<Rightarrow> ('k \<times> 'v) list" where
  "dict_set k v [] = [(k, v)]"
| "dict_set k v ((k', v') # d) = (if k' = k then (k, v) # d else (k', v') # dict_set k v d)"

text \<open>
  Lines 150 to 159: the authorizations that are valid already, and those pending by
  their domain name.
\<close>

fun collect_authorizations ::
  "authorization_resource list \<Rightarrow> authorization_resource list \<Rightarrow> (string \<times> authorization_resource) list \<Rightarrow>
   session \<Rightarrow> (exn + authorization_resource list \<times> (string \<times> authorization_resource) list) \<times> session" where
  "collect_authorizations [] authorizations authorization_resources ss =
     (Inr (authorizations, authorization_resources), ss)"
| "collect_authorizations (authorization_resource # rest) authorizations authorization_resources ss =
     (let domain_name = auth_identifier authorization_resource in
      case auth_status authorization_resource of
        STATUS_VALID \<Rightarrow>
          collect_authorizations rest (authorizations @ [authorization_resource]) authorization_resources
            (slog DEBUG ''Domain %s already authorized'' ss)
      | STATUS_PENDING \<Rightarrow>
          collect_authorizations rest authorizations
            (dict_set domain_name authorization_resource authorization_resources)
            (slog INFO ''Requesting authorization for domain %s'' ss)
      | _ \<Rightarrow>
          (Inl (AcmeError ''Unexpected status {} for authorization of {}''
                  [status_name (auth_status authorization_resource), domain_name]), ss))"

text \<open>
  Lines 178 to 181: the directory is made (with \<open>exist_ok\<close>), the file opened, written
  and given its mode.
\<close>

definition write_challenge :: "path \<Rightarrow> string \<Rightarrow> world \<Rightarrow> oserror option \<times> world" where
  "write_challenge challenge_file_path content w =
     (case makedirs True (dirname challenge_file_path) w of
        (Some e, w1) \<Rightarrow> (Some e, w1)
      | (None, w1) \<Rightarrow>
          (case os_open challenge_file_path w1 of
             (Some e, w2) \<Rightarrow> (Some e, w2)
           | (None, w2) \<Rightarrow>
               (case os_write challenge_file_path content w2 of
                  (Some e, w3) \<Rightarrow> (Some e, w3)
                | (None, w3) \<Rightarrow> os_fchmod challenge_file_path w3)))"

text \<open>\<open>for challenge_file in challenge_http_responses.values(): os.remove(challenge_file)\<close>.\<close>

fun remove_challenges :: "path list \<Rightarrow> world \<Rightarrow> oserror option \<times> world" where
  "remove_challenges [] w = (None, w)"
| "remove_challenges (challenge_file # rest) w =
     (case os_remove challenge_file w of
        (Some e, w1) \<Rightarrow> (Some e, w1)
      | (None, w1) \<Rightarrow> remove_challenges rest w1)"

text \<open>
  The \<open>except\<close> clauses of lines 185 to 189 and 194 to 197: the files written so far are
  removed and the exception \<open>e\<close> is raised, unless a removal raises first.
\<close>

definition remove_and_raise :: "(string \<times> path) list \<Rightarrow> exn \<Rightarrow> session \<Rightarrow> exn \<times> session" where
  "remove_and_raise challenge_http_responses e ss =
     (case remove_challenges (map snd challenge_http_responses) (fs ss) of
        (Some e', w1) \<Rightarrow> (OSErr e', ss\<lparr>fs := w1\<rparr>)
      | (None, w1) \<Rightarrow> (e, ss\<lparr>fs := w1\<rparr>))"

text \<open>Lines 167 to 189: a challenge file and a \<open>set_http_challenge\<close> hook for each pending domain.\<close>

fun setup_challenges ::
  "(string \<Rightarrow> path option) \<Rightarrow> (string \<times> authorization_resource) list \<Rightarrow> (string \<times> path) list \<Rightarrow>
   session \<Rightarrow> (exn + (string \<times> path) list) \<times> session" where
  "setup_challenges http_challenge_directory [] challenge_http_responses ss =
     (Inr challenge_http_responses, ss)"
| "setup_challenges http_challenge_directory ((domain_name, authorization_resource) # rest)
     challenge_http_responses ss =
     (case http_challenge_directory (auth_identifier authorization_resource) of
        None \<Rightarrow>
          (Inl (AcmeError ''no http_challenge_directory directory specified for domain {}'' [domain_name]), ss)
      | Some dir \<Rightarrow>
          (case get_challenge authorization_resource ''http-01'' of
             None \<Rightarrow> (Inl (AcmeError ''Unable to use http-01 challenge for {}'' [domain_name]), ss)
           | Some challenge \<Rightarrow>
               (let challenge_file_path = dir @ [chall_token challenge];
                    ss1 = slog DEBUG ''Setting http acme-challenge for %s in file %s'' ss;
                    failed = AcmeError ''Unable to create acme-challenge file {}'' [path_str challenge_file_path]
                in case write_challenge challenge_file_path (chall_validation challenge) (fs ss1) of
                     (Some e, w1) \<Rightarrow>
                       (case remove_and_raise challenge_http_responses failed (ss1\<lparr>fs := w1\<rparr>) of
                          (e', ss2) \<Rightarrow> (Inl e', ss2))
                   | (None, w1) \<Rightarrow>
                       (let responses = dict_set domain_name challenge_file_path challenge_http_responses in
                        case Hooks_add ''set_http_challenge''
                               [(''domain'', domain_name), (''file'', path_str challenge_file_path)] (hk ss1) of
                          (Some e, h1) \<Rightarrow>
                            (case remove_and_raise responses failed (ss1\<lparr>fs := w1, hk := h1\<rparr>) of
                               (e', ss2) \<Rightarrow> (Inl e', ss2))
                        | (None, h1) \<Rightarrow>
                            setup_challenges http_challenge_directory rest responses
                              (ss1\<lparr>fs := w1, hk := h1\<rparr>)))))"

text \<open>Lines 200 to 203: each file is removed and its \<open>clear_http_challenge\<close> hook added.\<close>

fun clear_challenges :: "(string \<times> path) list \<Rightarrow> session \<Rightarrow> exn option \<times> session" where
  "clear_challenges [] ss = (None, ss)"
| "clear_challenges ((domain_name, challenge_file) # rest) ss =
     (let ss1 = slog DEBUG ''Removing http acme-challenge for %s'' ss in
      case os_remove challenge_file (fs ss1) of
        (Some e, w1) \<Rightarrow> (Some (OSErr e), ss1\<lparr>fs := w1\<rparr>)
      | (None, w1) \<Rightarrow>
          (case Hooks_add ''clear_http_challenge''
                  [(''domain'', domain_name), (''file'', path_str challenge_file)] (hk ss1) of
             (Some e, h1) \<Rightarrow> (Some (HookErr e), ss1\<lparr>fs := w1, hk := h1\<rparr>)
           | (None, h1) \<Rightarrow> clear_challenges rest (ss1\<lparr>fs := w1, hk := h1\<rparr>)))"

text \<open>
  \<open>handle_authorizations\<close>, with the fuel of the poll loop. \<open>order\<close> is the list
  \<open>order.authorizations\<close>; \<open>http_challenge_directory\<close> is the method of that name of
  the file manager, \<open>None\<close> when no directory is configured for the identifier.
\<close>

definition handle_authorizations ::
  "nat \<Rightarrow> authorization_resource list \<Rightarrow> (string \<Rightarrow> path option) \<Rightarrow> int \<Rightarrow> int \<Rightarrow> session \<Rightarrow>
   (exn + authorization_resource list) option \<times> session" where
  "handle_authorizations fuel order http_challenge_directory retry delay ss =
     (case collect_authorizations order [] [] ss of
        (Inl e, ss1) \<Rightarrow> (Some (Inl e), ss1)
      | (Inr (authorizations, authorization_resources), ss1) \<Rightarrow>
          if authorization_resources = [] then (Some (Inr authorizations), ss1)
          else
            (case setup_challenges http_challenge_directory authorization_resources [] ss1 of
               (Inl e, ss2) \<Rightarrow> (Some (Inl e), ss2)
             | (Inr challenge_http_responses, ss2) \<Rightarrow>
                 (let ss3 = ss2\<lparr>hk := Hooks_call (hk ss2)\<rparr> in
                  case get_authorizations fuel authorization_resources retry delay (ac ss3) of
                    (None, s4) \<Rightarrow> (None, ss3\<lparr>ac := s4\<rparr>)
                  | (Some (Inl e), s4) \<Rightarrow>
                      (case remove_and_raise challenge_http_responses e (ss3\<lparr>ac := s4\<rparr>) of
                         (e', ss5) \<Rightarrow> (Some (Inl e'), ss5))
                  | (Some (Inr polled), s4) \<Rightarrow>
                      (case clear_challenges challenge_http_responses (ss3\<lparr>ac := s4\<rparr>) of
                         (Some e, ss5) \<Rightarrow> (Some (Inl e), ss5)
                       | (None, ss5) \<Rightarrow>
                           (Some (Inr (authorizations @ polled)), ss5\<lparr>hk := Hooks_call (hk ss5)\<rparr>)))))"

subsection \<open>An order with one pending authorization\<close>

definition web_root :: world where
  "web_root = \<lparr>nodes = [([''www''], Dir)], faults = (\<lambda>c. None), tmp_names = [], log = [], trace = []\<rparr>"

definition challenge_session :: session where
  "challenge_session = \<lparr>fs = web_root, hk = two_hooks, ac = pending_server\<rparr>"

definition challenge_dir :: "string \<Rightarrow> path option" where
  "challenge_dir identifier = Some [''www'', ''.well-known'', ''acme-challenge'']"


definition valid_server :: acme where
  "valid_server =
     \<lparr>answer_ok = (\<lambda>c. True),
      poll_answer = (\<lambda>n r. Some (r\<lparr>auth_status := STATUS_VALID\<rparr>, \<lparr>status_code = 200, retry_after_header = None\<rparr>)),
      polls = 0, answered = [], clock = 0, slept = [], alog = []\<rparr>"

section \<open>Evaluation\<close>

lemmas fs_eval =
  dirname_def basename_def lookup_def exists_path_def isdir_def read_file_def del_node_def
  put_node_def has_entries_def log_msg_def emit_def parent_error_def fault_error_def
  os_mkdir_def os_rmdir_def os_remove_def move_file_def move_dir_def os_rename_def rebase_def os_open_def os_write_def
  os_fchmod_def os_fchown_def makedirs.simps prune_parents.simps removedirs_def mktemp_def

lemmas op_eval =
  new_WriteOperation_def new_ArchiveAndWriteOperation_def new_ArchiveOperation_def
  set_content_def is_write_def archive_path_def tmp_path_def write_content_def
  move_existing_def write_apply_def op_apply_def op_revert_def write_cleanup_def
  op_cleanup_def commit_file_transactions_def

section \<open>Rollback of a failed commit\<close>

text \<open>
  C1. The claim: after the rollback of a commit that failed mid-apply, every file at its
  target path has the content it had before. On the full disk the commit of the one
  operation \<open>write_key\<close> raises; the operation that failed is not among those reverted,
  so the key file is left empty and the old key stays at the backup path.
\<close>

theorem failed_apply_is_not_rolled_back:
  "fst (commit_file_transactions [write_key] None full_disk) = Some OSError \<and>
   read_file full_disk [''r'', ''client.key''] = Some ''OLD'' \<and>
   read_file (snd (commit_file_transactions [write_key] None full_disk)) [''r'', ''client.key''] = Some [] \<and>
   read_file (snd (commit_file_transactions [write_key] None full_disk)) [''r'', ''.old-abc''] = Some ''OLD'' \<and>
   trace (snd (commit_file_transactions [write_key] None full_disk)) = [Apply [''r'', ''client.key'']]"
  by (simp add: full_disk_def write_key_def fs_eval op_eval)

section \<open>The host probed and the retries for a staple\<close>

lemma events_vlog_msg [simp]: "net_events (vlog_msg l m w) = net_events w"
  by (simp add: vlog_msg_def)

lemma handshake_vlog_msg [simp]: "handshake (vlog_msg l m w) = handshake w"
  by (simp add: vlog_msg_def)

lemma vlog_vlog_msg [simp]: "vlog (vlog_msg l m w) = vlog w @ [(l, m)]"
  by (simp add: vlog_msg_def)

lemma events_time_sleep:
  "net_events (snd (time_sleep d w)) = net_events w @ (if d < 0 then [] else [Sleep d])"
  by (simp add: time_sleep_def)

lemma fst_time_sleep: "fst (time_sleep d w) = (if d < 0 then Some ValueError else None)"
  by (simp add: time_sleep_def)

lemma handshake_time_sleep [simp]: "handshake (snd (time_sleep d w)) = handshake w"
  by (simp add: time_sleep_def)

lemma events_fetch_tls_info:
  "net_events (snd (fetch_tls_info a h w)) = net_events w @ [Connect a h]"
  by (cases "handshake w (length (filter is_connect (net_events w))) a h")
     (simp_all add: fetch_tls_info_def Let_def)

lemma handshake_fetch_tls_info [simp]: "handshake (snd (fetch_tls_info a h w)) = handshake w"
  by (cases "handshake w (length (filter is_connect (net_events w))) a h")
     (simp_all add: fetch_tls_info_def Let_def)

lemma fst_fetch_tls_info:
  "fst (fetch_tls_info a h w) =
     (case handshake w (length (filter is_connect (net_events w))) a h of
        None \<Rightarrow> Inl ConnectionFailed | Some i \<Rightarrow> Inr i)"
  by (cases "handshake w (length (filter is_connect (net_events w))) a h")
     (simp_all add: fetch_tls_info_def Let_def)

lemma events_ocsp_retry:
  "\<exists>k. net_events (snd (ocsp_retry m d a h n info w)) =
         net_events w @ concat (replicate k [Sleep d, Connect a h]) \<and> int k \<le> max 0 (m - n)"
proof (induction m d a h n info w rule: ocsp_retry.induct)
  case (1 m d a h n info w)
  show ?case
  proof (cases "snd info = None \<and> n < m")
    case False
    then have "ocsp_retry m d a h n info w = (Inr info, w)"
      by (subst ocsp_retry.simps) (simp only: if_False)
    then show ?thesis
      by (intro exI [of _ 0]) simp
  next
    case True
    obtain r w1 where s: "time_sleep d w = (r, w1)"
      by (cases "time_sleep d w")
    show ?thesis
    proof (cases r)
      case (Some e)
      with True s have "ocsp_retry m d a h n info w = (Inl e, w1)"
        by (simp add: ocsp_retry.simps)
      moreover from s Some have "net_events w1 = net_events w"
        using events_time_sleep [of d w] fst_time_sleep [of d w] by (simp split: if_splits)
      ultimately show ?thesis
        by (intro exI [of _ 0]) simp
    next
      case None
      from s None have w1: "net_events w1 = net_events w @ [Sleep d]"
        using events_time_sleep [of d w] fst_time_sleep [of d w] by (simp split: if_splits)
      obtain r2 w2 where f: "fetch_tls_info a h (vlog_msg DEBUG ''Retry to fetch OCSP staple'' w1) = (r2, w2)"
        by (cases "fetch_tls_info a h (vlog_msg DEBUG ''Retry to fetch OCSP staple'' w1)")
      have w2: "net_events w2 = net_events w @ [Sleep d, Connect a h]"
        using events_fetch_tls_info [of a h "vlog_msg DEBUG ''Retry to fetch OCSP staple'' w1"] f w1
        by simp
      show ?thesis
      proof (cases r2)
        case (Inl e)
        with True s None f have "ocsp_retry m d a h n info w = (Inl e, w2)"
          by (simp add: ocsp_retry.simps)
        with w2 True show ?thesis
          by (intro exI [of _ 1]) simp
      next
        case (Inr info')
        with True s None f have eq: "ocsp_retry m d a h n info w = ocsp_retry m d a h (n + 1) info' w2"
          by (simp add: ocsp_retry.simps)
        from "1.IH" [OF True s [symmetric] None f [symmetric] Inr]
        obtain k where k: "net_events (snd (ocsp_retry m d a h (n + 1) info' w2)) =
            net_events w2 @ concat (replicate k [Sleep d, Connect a h])"
          and kb: "int k \<le> max 0 (m - (n + 1))"
          by blast
        from k w2 eq have "net_events (snd (ocsp_retry m d a h n info w)) =
            net_events w @ concat (replicate (Suc k) [Sleep d, Connect a h])"
          by simp
        moreover from kb True have "int (Suc k) \<le> max 0 (m - n)"
          by simp
        ultimately show ?thesis
          by blast
      qed
    qed
  qed
qed


lemma ocsp_retry_no_staple:
  assumes "\<forall>k. handshake w k a h = Some (certs, None)" and "0 \<le> d"
  shows "fst (ocsp_retry m d a h n (certs, None) w) = Inr (certs, None) \<and>
         net_events (snd (ocsp_retry m d a h n (certs, None) w)) =
           net_events w @ concat (replicate (nat (m - n)) [Sleep d, Connect a h])"
  using assms
proof (induction m d a h n "(certs, None :: string option)" w rule: ocsp_retry.induct)
  case (1 m d a h n w)
  show ?case
  proof (cases "n < m")
    case False
    then have "ocsp_retry m d a h n (certs, None) w = (Inr (certs, None), w)"
      by (subst ocsp_retry.simps) simp
    with False show ?thesis
      by simp
  next
    case True
    define w1 where "w1 = w\<lparr>net_events := net_events w @ [Sleep d]\<rparr>"
    define w1' where "w1' = vlog_msg DEBUG ''Retry to fetch OCSP staple'' w1"
    define w2 where "w2 = snd (fetch_tls_info a h w1')"
    from "1.prems" have s: "time_sleep d w = (None, w1)"
      by (simp add: time_sleep_def w1_def)
    have hs: "handshake w1' = handshake w"
      by (simp add: w1'_def w1_def)
    with "1.prems" have "fst (fetch_tls_info a h w1') = Inr (certs, None)"
      by (simp add: fst_fetch_tls_info)
    then have f: "fetch_tls_info a h w1' = (Inr (certs, None), w2)"
      by (simp add: w2_def prod_eq_iff)
    have hs2: "handshake w2 = handshake w"
      by (simp add: w2_def hs)
    have ev2: "net_events w2 = net_events w @ [Sleep d, Connect a h]"
      by (simp add: w2_def events_fetch_tls_info w1'_def w1_def)
    from True s f have eq: "ocsp_retry m d a h n (certs, None) w = ocsp_retry m d a h (n + 1) (certs, None) w2"
      by (subst ocsp_retry.simps) (simp add: w1'_def)
    have "snd (certs, None :: string option) = None \<and> n < m"
      using True by simp
    from "1.hyps" [OF this s [symmetric] refl f [unfolded w1'_def, symmetric] refl]
    have ih: "fst (ocsp_retry m d a h (n + 1) (certs, None) w2) = Inr (certs, None) \<and>
         net_events (snd (ocsp_retry m d a h (n + 1) (certs, None) w2)) =
           net_events w2 @ concat (replicate (nat (m - (n + 1))) [Sleep d, Connect a h])"
      using "1.prems" hs2 by simp
    from True have "nat (m - n) = Suc (nat (m - (n + 1)))"
      by simp
    with ih eq ev2 show ?thesis
      by simp
  qed
qed

lemma events_compare_chains [simp]: "net_events (compare_chains cs ds w) = net_events w"
  by (induction cs ds w rule: compare_chains.induct) simp_all

lemma events_report_installation:
  "net_events (snd (report_installation item info w)) = net_events w"
proof (cases "fst info")
  case Nil
  then show ?thesis
    by (simp add: report_installation_def)
next
  case (Cons c cs)
  then show ?thesis
    by (cases "snd info") (simp_all add: report_installation_def Let_def)
qed

lemma report_installation_no_staple:
  assumes "has_oscp_must_staple item"
  shows "last (vlog (snd (report_installation item (c # cs, None) w))) =
    (ERROR, ''[%s:%s] VALIDATION ERROR: Certificate has OCSP Must-Staple but no OSCP staple found on %s'')"
  using assms by (simp add: report_installation_def Let_def)

lemma events_probe_address:
  "\<exists>k. net_events (snd (probe_address item h m d a w)) =
         net_events w @ Connect a h # concat (replicate k [Sleep d, Connect a h]) \<and>
       int k \<le> max 0 (m - 1)"
proof -
  define w0 where "w0 = vlog_msg DEBUG ''Connecting to %s with %s ciphers'' w"
  obtain r w1 where f: "fetch_tls_info a h w0 = (r, w1)"
    by (cases "fetch_tls_info a h w0")
  have w1: "net_events w1 = net_events w @ [Connect a h]"
    using events_fetch_tls_info [of a h w0] f by (simp add: w0_def)
  show ?thesis
  proof (cases r)
    case (Inl e)
    with f have "probe_address item h m d a w = (Some e, w1)"
      by (simp add: probe_address_def w0_def)
    with w1 show ?thesis
      by (intro exI [of _ 0]) simp
  next
    case (Inr info)
    define r2 where "r2 = (if has_oscp_must_staple item then ocsp_retry m d a h 1 info w1 else (Inr info, w1))"
    have "\<exists>k. net_events (snd r2) = net_events w1 @ concat (replicate k [Sleep d, Connect a h]) \<and>
            int k \<le> max 0 (m - 1)"
    proof (cases "has_oscp_must_staple item")
      case True
      then show ?thesis
        using events_ocsp_retry [of m d a h 1 info w1] by (simp add: r2_def)
    next
      case False
      then show ?thesis
        by (intro exI [of _ 0]) (simp add: r2_def)
    qed
    then obtain k where k: "net_events (snd r2) = net_events w1 @ concat (replicate k [Sleep d, Connect a h])"
      and kb: "int k \<le> max 0 (m - 1)"
      by blast
    have "net_events (snd (probe_address item h m d a w)) = net_events (snd r2)"
    proof (cases r2)
      case (Pair x w2)
      show ?thesis
      proof (cases x)
        case (Inl e)
        with Pair f Inr show ?thesis
          by (simp add: probe_address_def w0_def r2_def)
      next
        case (Inr info')
        with Pair f \<open>r = Inr info\<close> show ?thesis
          by (simp add: probe_address_def w0_def r2_def events_report_installation)
      qed
    qed
    with k kb w1 show ?thesis
      by (intro exI [of _ k]) simp
  qed
qed

lemma events_verify_address:
  "\<exists>k. net_events (verify_address item h m d a w) =
         net_events w @ Connect a h # concat (replicate k [Sleep d, Connect a h]) \<and>
       int k \<le> max 0 (m - 1)"
proof -
  obtain r w1 where p: "probe_address item h m d a w = (r, w1)"
    by (cases "probe_address item h m d a w")
  then have "net_events (verify_address item h m d a w) = net_events (snd (probe_address item h m d a w))"
    by (cases r) (simp_all add: verify_address_def)
  then show ?thesis
    using events_probe_address [of item h m d a w] by simp
qed

lemma getaddrinfo_verify_hosts:
  "\<exists>es. net_events (fold (verify_address item h m d) as w) = net_events w @ es \<and>
        list_all (\<lambda>e. set (event_host e) \<subseteq> {h}) es"
proof (induction as arbitrary: w)
  case Nil
  show ?case
    by (intro exI [of _ "[]"]) simp
next
  case (Cons a as)
  obtain k where k: "net_events (verify_address item h m d a w) =
      net_events w @ Connect a h # concat (replicate k [Sleep d, Connect a h])"
    using events_verify_address [of item h m d a w] by blast
  obtain es where es: "net_events (fold (verify_address item h m d) as (verify_address item h m d a w)) =
      net_events (verify_address item h m d a w) @ es"
    and hs: "list_all (\<lambda>e. set (event_host e) \<subseteq> {h}) es"
    using Cons.IH [of "verify_address item h m d a w"] by blast
  have "list_all (\<lambda>e. set (event_host e) \<subseteq> {h}) (concat (replicate k [Sleep d, Connect a h]))"
    by (induction k) simp_all
  with k es hs show ?case
    by (intro exI [of _ "Connect a h # concat (replicate k [Sleep d, Connect a h]) @ es"]) simp
qed


lemma events_verify_certificate_installation_1:
  "\<exists>es. net_events (verify_certificate_installation_1 item h port m d w) =
          net_events w @
          GetAddrInfo (if take 2 h = ''*.'' then ''wildcard-test.'' @ drop 2 h else h) port # es \<and>
        list_all (\<lambda>e. set (event_host e) \<subseteq>
          {if take 2 h = ''*.'' then ''wildcard-test.'' @ drop 2 h else h}) es"
proof -
  define h' where "h' = (if take 2 h = ''*.'' then ''wildcard-test.'' @ drop 2 h else h)"
  define w1 where "w1 = w\<lparr>net_events := net_events w @ [GetAddrInfo h' port]\<rparr>"
  have w1: "net_events w1 = net_events w @ [GetAddrInfo h' port]"
    by (simp add: w1_def)
  have "\<exists>es. net_events (verify_certificate_installation_1 item h port m d w) = net_events w1 @ es \<and>
          list_all (\<lambda>e. set (event_host e) \<subseteq> {h'}) es"
  proof (cases "getaddrinfo w h' port")
    case None
    then have "verify_certificate_installation_1 item h port m d w =
        vlog_msg ERROR ''[%s:%s] VALIDATION ERROR: Unable to get address for %s: %s'' w1"
      by (simp add: verify_certificate_installation_1_def Let_def h'_def w1_def)
    then show ?thesis
      by (intro exI [of _ "[]"]) simp
  next
    case (Some as)
    then have "verify_certificate_installation_1 item h port m d w = fold (verify_address item h' m d) as w1"
      by (simp add: verify_certificate_installation_1_def Let_def h'_def w1_def)
    then show ?thesis
      using getaddrinfo_verify_hosts [of item h' m d as w1] by simp
  qed
  then show ?thesis
    unfolding h'_def [symmetric] using w1 by auto
qed

lemma hosts_of_run:
  assumes "list_all (\<lambda>e. set (event_host e) \<subseteq> {h}) es"
  shows "set (concat (map event_host (GetAddrInfo h port # es))) = {h}"
  using assms by (induction es) auto

lemma sleeps_of_retries:
  "length (filter is_sleep (concat (replicate k [Sleep d, Connect a h]))) = k"
  by (induction k) simp_all

lemma connects_of_retries:
  "length (filter is_connect (concat (replicate k [Sleep d, Connect a h]))) = k"
  by (induction k) simp_all

lemma verify_address_no_staple:
  assumes "has_oscp_must_staple item" and "\<forall>n. handshake w n a h = Some (c # cs, None)" and "0 \<le> d"
  shows "net_events (verify_address item h m d a w) =
           net_events w @ Connect a h # concat (replicate (nat (m - 1)) [Sleep d, Connect a h]) \<and>
         last (vlog (verify_address item h m d a w)) =
           (ERROR, ''[%s:%s] VALIDATION ERROR: Certificate has OCSP Must-Staple but no OSCP staple found on %s'')"
proof -
  define w0 where "w0 = vlog_msg DEBUG ''Connecting to %s with %s ciphers'' w"
  define w1 where "w1 = snd (fetch_tls_info a h w0)"
  define w2 where "w2 = snd (ocsp_retry m d a h 1 (c # cs, None) w1)"
  have "fst (fetch_tls_info a h w0) = Inr (c # cs, None)"
    using assms(2) by (simp add: fst_fetch_tls_info w0_def)
  then have f: "fetch_tls_info a h w0 = (Inr (c # cs, None), w1)"
    by (simp add: w1_def prod_eq_iff)
  have hs1: "\<forall>n. handshake w1 n a h = Some (c # cs, None)"
    using assms(2) by (simp add: w1_def w0_def)
  have ev1: "net_events w1 = net_events w @ [Connect a h]"
    by (simp add: w1_def w0_def events_fetch_tls_info)
  from ocsp_retry_no_staple [OF hs1 assms(3), of m 1]
  have r: "ocsp_retry m d a h 1 (c # cs, None) w1 = (Inr (c # cs, None), w2)"
    and ev2: "net_events w2 = net_events w1 @ concat (replicate (nat (m - 1)) [Sleep d, Connect a h])"
    by (simp_all add: w2_def prod_eq_iff)
  obtain r3 w3 where rep: "report_installation item (c # cs, None) w2 = (r3, w3)"
    by (cases "report_installation item (c # cs, None) w2")
  have r3: "r3 = None"
    using rep assms(1) by (simp add: report_installation_def Let_def)
  from f r rep assms(1) have "probe_address item h m d a w = (r3, w3)"
    by (simp add: probe_address_def w0_def)
  with r3 have "verify_address item h m d a w = w3"
    by (simp add: verify_address_def)
  moreover have "net_events w3 = net_events w2"
    using events_report_installation [of item "(c # cs, None)" w2] rep by simp
  moreover have "last (vlog w3) =
      (ERROR, ''[%s:%s] VALIDATION ERROR: Certificate has OCSP Must-Staple but no OSCP staple found on %s'')"
    using report_installation_no_staple [OF assms(1), of c cs w2] rep by simp
  ultimately show ?thesis
    using ev1 ev2 by simp
qed

lemma events_fold_verify_address:
  "\<exists>ks. length ks = length as \<and>
        net_events (fold (verify_address item h m d) as w) = net_events w @ dialled h d as ks"
proof (induction as arbitrary: w)
  case Nil
  show ?case
    by (simp add: dialled_def)
next
  case (Cons a as)
  obtain k where k: "net_events (verify_address item h m d a w) =
      net_events w @ Connect a h # concat (replicate k [Sleep d, Connect a h])"
    using events_verify_address [of item h m d a w] by blast
  obtain ks where l: "length ks = length as"
    and es: "net_events (fold (verify_address item h m d) as (verify_address item h m d a w)) =
      net_events (verify_address item h m d a w) @ dialled h d as ks"
    using Cons.IH [of "verify_address item h m d a w"] by blast
  from l k es show ?case
    by (intro exI [of _ "k # ks"]) (simp add: dialled_def)
qed

lemma events_verify_address_plain:
  assumes "\<not> has_oscp_must_staple item"
  shows "net_events (verify_address item h m d a w) = net_events w @ [Connect a h]"
proof -
  define w0 where "w0 = vlog_msg DEBUG ''Connecting to %s with %s ciphers'' w"
  obtain r w1 where f: "fetch_tls_info a h w0 = (r, w1)"
    by (cases "fetch_tls_info a h w0")
  have w1: "net_events w1 = net_events w @ [Connect a h]"
    using events_fetch_tls_info [of a h w0] f by (simp add: w0_def)
  show ?thesis
  proof (cases r)
    case (Inl e)
    with f have "probe_address item h m d a w = (Some e, w1)"
      by (simp add: probe_address_def w0_def)
    with w1 show ?thesis
      by (simp add: verify_address_def)
  next
    case (Inr info)
    obtain r3 w3 where rep: "report_installation item info w1 = (r3, w3)"
      by (cases "report_installation item info w1")
    have w3: "net_events w3 = net_events w1"
      using events_report_installation [of item info w1] rep by simp
    from f Inr rep assms have "probe_address item h m d a w = (r3, w3)"
      by (simp add: probe_address_def w0_def)
    then have "net_events (verify_address item h m d a w) = net_events w3"
      by (cases r3) (simp_all add: verify_address_def)
    with w3 w1 show ?thesis
      by simp
  qed
qed

lemma events_fold_verify_address_plain:
  assumes "\<not> has_oscp_must_staple item"
  shows "net_events (fold (verify_address item h m d) as w) = net_events w @ map (\<lambda>a. Connect a h) as"
  by (induction as arbitrary: w) (simp_all add: events_verify_address_plain [OF assms])

lemma probe_run:
  "(getaddrinfo w g' port = Some addrs \<longrightarrow>
      (\<exists>ks. length ks = length addrs \<and>
         net_events (fold (verify_address item g' m d) addrs (w\<lparr>net_events := net_events w @ [GetAddrInfo g' port]\<rparr>)) =
           net_events w @ GetAddrInfo g' port # dialled g' d addrs ks) \<and>
      (\<not> has_oscp_must_staple item \<longrightarrow>
         net_events (fold (verify_address item g' m d) addrs (w\<lparr>net_events := net_events w @ [GetAddrInfo g' port]\<rparr>)) =
           net_events w @ GetAddrInfo g' port # map (\<lambda>a. Connect a g') addrs))"
  using events_fold_verify_address [of addrs item g' m d "w\<lparr>net_events := net_events w @ [GetAddrInfo g' port]\<rparr>"]
    events_fold_verify_address_plain [of item g' m d addrs "w\<lparr>net_events := net_events w @ [GetAddrInfo g' port]\<rparr>"]
  by auto

lemma new_events_verify:
  "(getaddrinfo w (if take 2 g = ''*.'' then ''wildcard-test.'' @ drop 2 g else g) port = Some addrs \<longrightarrow>
      (\<exists>ks. length ks = length addrs \<and>
         new_events w (verify_certificate_installation_1 item g port m d w) =
           GetAddrInfo (if take 2 g = ''*.'' then ''wildcard-test.'' @ drop 2 g else g) port #
           dialled (if take 2 g = ''*.'' then ''wildcard-test.'' @ drop 2 g else g) d addrs ks) \<and>
      (\<not> has_oscp_must_staple item \<longrightarrow>
         new_events w (verify_certificate_installation_1 item g port m d w) =
           GetAddrInfo (if take 2 g = ''*.'' then ''wildcard-test.'' @ drop 2 g else g) port #
           map (\<lambda>a. Connect a (if take 2 g = ''*.'' then ''wildcard-test.'' @ drop 2 g else g)) addrs)) \<and>
   (getaddrinfo w (if take 2 g = ''*.'' then ''wildcard-test.'' @ drop 2 g else g) port = None \<longrightarrow>
      new_events w (verify_certificate_installation_1 item g port m d w) =
        [GetAddrInfo (if take 2 g = ''*.'' then ''wildcard-test.'' @ drop 2 g else g) port])"
proof -
  define g' where "g' = (if take 2 g = ''*.'' then ''wildcard-test.'' @ drop 2 g else g)"
  define w1 where "w1 = w\<lparr>net_events := net_events w @ [GetAddrInfo g' port]\<rparr>"
  have none: "new_events w (verify_certificate_installation_1 item g port m d w) = [GetAddrInfo g' port]"
    if "getaddrinfo w g' port = None"
    using that by (simp add: verify_certificate_installation_1_def Let_def g'_def new_events_def)
  have some: "verify_certificate_installation_1 item g port m d w = fold (verify_address item g' m d) addrs w1"
    if "getaddrinfo w g' port = Some addrs"
    using that by (simp add: verify_certificate_installation_1_def Let_def g'_def w1_def)
  show ?thesis
    unfolding g'_def [symmetric]
    using none some probe_run [of w g' port addrs item m d]
    by (auto simp add: new_events_def w1_def)
qed


lemmas verify_eval =
  verify_certificate_installation_1_def verify_address_def probe_address_def report_installation_def
  fetch_tls_info_def time_sleep_def vlog_msg_def new_events_def lower_def ocsp_retry.simps dialled_def

text \<open>
  C9. For a host name \<open>*.X\<close> the lookup is made for \<open>wildcard-test.X\<close>, and every address
  the lookup returns is dialled, in the order of the addresses, with the name
  \<open>wildcard-test.X\<close>: the events of the run are the lookup and then, for each address, a
  connection and the retries for a staple (no retries for a certificate without
  must-staple; nothing but the lookup when it raises). No lookup and no connection uses
  the literal \<open>*.X\<close>. A host name that does not start with \<open>*.\<close> is looked up and
  dialled in the same way, as it is.
\<close>

lemma wildcard_name:
  "(if take 2 (''*.'' @ x) = ''*.'' then ''wildcard-test.'' @ drop 2 (''*.'' @ x) else ''*.'' @ x) =
     ''wildcard-test.'' @ x"
  by simp

lemma plain_name:
  "take 2 h \<noteq> ''*.'' \<Longrightarrow> (if take 2 h = ''*.'' then ''wildcard-test.'' @ drop 2 h else h) = h"
  by simp

lemma hosts_verify:
  "hd (new_events w (verify_certificate_installation_1 item g port m d w)) =
       GetAddrInfo (if take 2 g = ''*.'' then ''wildcard-test.'' @ drop 2 g else g) port \<and>
     set (concat (map event_host (new_events w (verify_certificate_installation_1 item g port m d w)))) =
       {if take 2 g = ''*.'' then ''wildcard-test.'' @ drop 2 g else g}"
proof -
  obtain es where es: "net_events (verify_certificate_installation_1 item g port m d w) =
        net_events w @
        GetAddrInfo (if take 2 g = ''*.'' then ''wildcard-test.'' @ drop 2 g else g) port # es"
    and hs: "list_all (\<lambda>e. set (event_host e) \<subseteq>
        {if take 2 g = ''*.'' then ''wildcard-test.'' @ drop 2 g else g}) es"
    using events_verify_certificate_installation_1 [of item g port m d w] by blast
  from es have "new_events w (verify_certificate_installation_1 item g port m d w) =
      GetAddrInfo (if take 2 g = ''*.'' then ''wildcard-test.'' @ drop 2 g else g) port # es"
    by (simp add: new_events_def)
  then show ?thesis
    using hosts_of_run [OF hs, of port] by simp
qed

theorem wildcard_host_is_probed_as_wildcard_test:
  "((getaddrinfo w (''wildcard-test.'' @ x) port = Some addrs \<longrightarrow>
       (\<exists>ks. length ks = length addrs \<and>
          new_events w (verify_certificate_installation_1 item (''*.'' @ x) port m d w) =
            GetAddrInfo (''wildcard-test.'' @ x) port # dialled (''wildcard-test.'' @ x) d addrs ks) \<and>
       (\<not> has_oscp_must_staple item \<longrightarrow>
          new_events w (verify_certificate_installation_1 item (''*.'' @ x) port m d w) =
            GetAddrInfo (''wildcard-test.'' @ x) port # map (\<lambda>a. Connect a (''wildcard-test.'' @ x)) addrs)) \<and>
    (getaddrinfo w (''wildcard-test.'' @ x) port = None \<longrightarrow>
       new_events w (verify_certificate_installation_1 item (''*.'' @ x) port m d w) =
         [GetAddrInfo (''wildcard-test.'' @ x) port])) \<and>
   (hd (new_events w (verify_certificate_installation_1 item (''*.'' @ x) port m d w)) =
      GetAddrInfo (''wildcard-test.'' @ x) port \<and>
    set (concat (map event_host
      (new_events w (verify_certificate_installation_1 item (''*.'' @ x) port m d w)))) =
      {''wildcard-test.'' @ x}) \<and>
   (take 2 h \<noteq> ''*.'' \<longrightarrow>
      ((getaddrinfo w h port = Some addrs' \<longrightarrow>
          (\<exists>ks. length ks = length addrs' \<and>
             new_events w (verify_certificate_installation_1 item h port m d w) =
               GetAddrInfo h port # dialled h d addrs' ks) \<and>
          (\<not> has_oscp_must_staple item \<longrightarrow>
             new_events w (verify_certificate_installation_1 item h port m d w) =
               GetAddrInfo h port # map (\<lambda>a. Connect a h) addrs')) \<and>
       (getaddrinfo w h port = None \<longrightarrow>
          new_events w (verify_certificate_installation_1 item h port m d w) = [GetAddrInfo h port])) \<and>
      (hd (new_events w (verify_certificate_installation_1 item h port m d w)) = GetAddrInfo h port \<and>
       set (concat (map event_host
         (new_events w (verify_certificate_installation_1 item h port m d w)))) = {h}))"
proof -
  note wild = new_events_verify [of w "''*.'' @ x" port addrs item m d, unfolded wildcard_name]
  note wild_hosts = hosts_verify [of w item "''*.'' @ x" port m d, unfolded wildcard_name]
  have plain: "(getaddrinfo w h port = Some addrs' \<longrightarrow>
          (\<exists>ks. length ks = length addrs' \<and>
             new_events w (verify_certificate_installation_1 item h port m d w) =
               GetAddrInfo h port # dialled h d addrs' ks) \<and>
          (\<not> has_oscp_must_staple item \<longrightarrow>
             new_events w (verify_certificate_installation_1 item h port m d w) =
               GetAddrInfo h port # map (\<lambda>a. Connect a h) addrs')) \<and>
       (getaddrinfo w h port = None \<longrightarrow>
          new_events w (verify_certificate_installation_1 item h port m d w) = [GetAddrInfo h port])"
    if "take 2 h \<noteq> ''*.''"
    by (rule new_events_verify [of w h port addrs' item m d, unfolded plain_name [OF that]])
  have plain_hosts: "hd (new_events w (verify_certificate_installation_1 item h port m d w)) = GetAddrInfo h port \<and>
       set (concat (map event_host
         (new_events w (verify_certificate_installation_1 item h port m d w)))) = {h}"
    if "take 2 h \<noteq> ''*.''"
    by (rule hosts_verify [of w item h port m d, unfolded plain_name [OF that]])
  show ?thesis
    apply (rule conjI)
     apply (rule wild)
    apply (rule conjI)
     apply (rule wild_hosts)
    apply (rule impI)
    apply (rule conjI)
     apply (erule plain)
    apply (erule plain_hosts)
    done
qed

theorem wildcard_host_is_probed_as_wildcard_test_witness:
  "getaddrinfo example_net ''wildcard-test.example.com'' 443 = Some [\<lparr>inet6 = False, numeric_host = ''192.0.2.1''\<rparr>] \<and>
   \<not> has_oscp_must_staple plain_item \<and>
   getaddrinfo example_net ''wildcard-test.example.org'' 443 = None \<and>
   take 2 ''www.example.com'' \<noteq> ''*.'' \<and>
   getaddrinfo example_net ''www.example.com'' 443 = Some [\<lparr>inet6 = False, numeric_host = ''192.0.2.1''\<rparr>] \<and>
   take 2 ''www.example.org'' \<noteq> ''*.'' \<and>
   getaddrinfo example_net ''www.example.org'' 443 = None \<and>
   new_events example_net (verify_certificate_installation_1 example_item ''*.example.com'' 443 3 5 example_net) =
     [GetAddrInfo ''wildcard-test.example.com'' 443,
      Connect \<lparr>inet6 = False, numeric_host = ''192.0.2.1''\<rparr> ''wildcard-test.example.com'',
      Sleep 5,
      Connect \<lparr>inet6 = False, numeric_host = ''192.0.2.1''\<rparr> ''wildcard-test.example.com'',
      Sleep 5,
      Connect \<lparr>inet6 = False, numeric_host = ''192.0.2.1''\<rparr> ''wildcard-test.example.com''] \<and>
   new_events example_net (verify_certificate_installation_1 plain_item ''*.example.com'' 443 3 5 example_net) =
     [GetAddrInfo ''wildcard-test.example.com'' 443,
      Connect \<lparr>inet6 = False, numeric_host = ''192.0.2.1''\<rparr> ''wildcard-test.example.com''] \<and>
   new_events example_net (verify_certificate_installation_1 example_item ''*.example.org'' 443 3 5 example_net) =
     [GetAddrInfo ''wildcard-test.example.org'' 443] \<and>
   new_events example_net (verify_certificate_installation_1 plain_item ''www.example.com'' 443 3 5 example_net) =
     [GetAddrInfo ''www.example.com'' 443,
      Connect \<lparr>inet6 = False, numeric_host = ''192.0.2.1''\<rparr> ''www.example.com''] \<and>
   new_events example_net (verify_certificate_installation_1 example_item ''www.example.org'' 443 3 5 example_net) =
     [GetAddrInfo ''www.example.org'' 443]"
  using wildcard_host_is_probed_as_wildcard_test [of example_net "''example.com''" 443 "[\<lparr>inet6 = False, numeric_host = ''192.0.2.1''\<rparr>]"
      plain_item 3 5 "''www.example.com''" "[\<lparr>inet6 = False, numeric_host = ''192.0.2.1''\<rparr>]"]
    wildcard_host_is_probed_as_wildcard_test [of example_net "''example.org''" 443 "[]" example_item 3 5 "''www.example.org''" "[]"]
    wildcard_host_is_probed_as_wildcard_test [of example_net "''example.com''" 443 "[\<lparr>inet6 = False, numeric_host = ''192.0.2.1''\<rparr>]"
      example_item 3 5 "''www.example.com''" "[\<lparr>inet6 = False, numeric_host = ''192.0.2.1''\<rparr>]"]
  by (simp add: example_net_def example_item_def plain_item_def verify_eval Let_def)

text \<open>
  C6. For a certificate with must-staple, the connections made to one address are the first
  fetch and then retries, each one after a sleep of \<open>ocsp_verify_retry_delay\<close>; there are
  at most \<open>max_ocsp_verify_attempts - 1\<close> retries, so at most \<open>max_ocsp_verify_attempts\<close>
  fetches in all (one when the bound is below one). When the peer never sends a staple the
  bound is reached and the last message logged is the validation error.
\<close>

theorem ocsp_staple_fetch_is_retried_up_to_max_attempts:
  assumes "has_oscp_must_staple item"
  shows "new_events w (verify_address item h m d a w) =
           Connect a h # concat (replicate
             (length (filter is_sleep (new_events w (verify_address item h m d a w))))
             [Sleep d, Connect a h]) \<and>
         int (length (filter is_sleep (new_events w (verify_address item h m d a w)))) \<le> max 0 (m - 1) \<and>
         int (length (filter is_connect (new_events w (verify_address item h m d a w)))) \<le> max 1 m \<and>
         ((\<forall>n. handshake w n a h = Some (c # cs, None)) \<and> 0 \<le> d \<longrightarrow>
            int (length (filter is_connect (new_events w (verify_address item h m d a w)))) = max 1 m \<and>
            last (vlog (verify_address item h m d a w)) =
              (ERROR, ''[%s:%s] VALIDATION ERROR: Certificate has OCSP Must-Staple but no OSCP staple found on %s''))"
proof -
  obtain k where k: "net_events (verify_address item h m d a w) =
         net_events w @ Connect a h # concat (replicate k [Sleep d, Connect a h])"
    and kb: "int k \<le> max 0 (m - 1)"
    using events_verify_address [of item h m d a w] by blast
  from k have es: "new_events w (verify_address item h m d a w) =
      Connect a h # concat (replicate k [Sleep d, Connect a h])"
    by (simp add: new_events_def)
  have sl: "length (filter is_sleep (new_events w (verify_address item h m d a w))) = k"
    by (simp add: es sleeps_of_retries)
  have co: "length (filter is_connect (new_events w (verify_address item h m d a w))) = Suc k"
    by (simp add: es connects_of_retries)
  have exact: "int (Suc k) = max 1 m \<and> last (vlog (verify_address item h m d a w)) =
      (ERROR, ''[%s:%s] VALIDATION ERROR: Certificate has OCSP Must-Staple but no OSCP staple found on %s'')"
    if "\<forall>n. handshake w n a h = Some (c # cs, None)" and "0 \<le> d"
  proof -
    from verify_address_no_staple [OF assms that, of m]
    have e: "net_events (verify_address item h m d a w) =
           net_events w @ Connect a h # concat (replicate (nat (m - 1)) [Sleep d, Connect a h])"
      and l: "last (vlog (verify_address item h m d a w)) =
      (ERROR, ''[%s:%s] VALIDATION ERROR: Certificate has OCSP Must-Staple but no OSCP staple found on %s'')"
      by simp_all
    from e k have "length (filter is_sleep (concat (replicate k [Sleep d, Connect a h]))) =
        length (filter is_sleep (concat (replicate (nat (m - 1)) [Sleep d, Connect a h])))"
      by simp
    then have "k = nat (m - 1)"
      by (simp only: sleeps_of_retries)
    with l show ?thesis
      by simp
  qed
  from es sl co kb exact show ?thesis
    by (simp only: sl co) auto
qed

theorem ocsp_staple_fetch_is_retried_up_to_max_attempts_witness:
  "has_oscp_must_staple example_item \<and>
   (\<forall>n. handshake example_net n \<lparr>inet6 = False, numeric_host = ''192.0.2.1''\<rparr> ''www.example.com'' =
      Some (''leaf'' # [''intermediate''], None)) \<and> (0::int) \<le> 5 \<and>
   int (length (filter is_connect (new_events example_net
     (verify_address example_item ''www.example.com'' 3 5 \<lparr>inet6 = False, numeric_host = ''192.0.2.1''\<rparr> example_net)))) = 3 \<and>
   int (length (filter is_sleep (new_events example_net
     (verify_address example_item ''www.example.com'' 3 5 \<lparr>inet6 = False, numeric_host = ''192.0.2.1''\<rparr> example_net)))) \<le> 2"
  using ocsp_staple_fetch_is_retried_up_to_max_attempts [of example_item example_net "''www.example.com''" 3 5
    "\<lparr>inet6 = False, numeric_host = ''192.0.2.1''\<rparr>" "''leaf''" "[''intermediate'']"]
  by (simp add: example_item_def example_net_def)

section \<open>The order of the hooks and what add raises\<close>

lemma started_hlog_msg [simp]: "started (hlog_msg l m h) = started h"
  by (simp add: hlog_msg_def)

lemma queue_hlog_msg [simp]: "queue (hlog_msg l m h) = queue h"
  by (simp add: hlog_msg_def)

lemma check_output_hlog_msg [simp]: "check_output (hlog_msg l m h) = check_output h"
  by (simp add: hlog_msg_def)

lemma hlog_hlog_msg [simp]: "hlog (hlog_msg l m h) = hlog h @ [(l, m)]"
  by (simp add: hlog_msg_def)

lemma started_call_hook [simp]: "started (call_hook argv h) = started h @ [argv]"
  by (cases "check_output h (length (started h)) argv") (simp_all add: call_hook_def Let_def)

lemma queue_call_hook [simp]: "queue (call_hook argv h) = queue h"
  by (cases "check_output h (length (started h)) argv") (simp_all add: call_hook_def Let_def)

lemma started_fold_call_hook [simp]: "started (fold call_hook hs h) = started h @ hs"
  by (induction hs arbitrary: h) simp_all











lemma set_first_added [simp]: "set (first_added ns) = set ns"
  by (simp add: first_added_def)

lemma distinct_first_added [simp]: "distinct (first_added ns)"
  by (simp add: first_added_def)







lemmas hooks_eval =
  hlog_msg_def hook_args_def Hooks_add_def call_hook_def Hooks_call_def add_each_def resolved_def
  first_added_def by_hook_name_def




section \<open>The poll that raises the timeout\<close>

lemma poll_answer_alog_msg [simp]: "poll_answer (alog_msg l m s) = poll_answer s"
  by (simp add: alog_msg_def)

lemma polls_alog_msg [simp]: "polls (alog_msg l m s) = polls s"
  by (simp add: alog_msg_def)

lemma answer_ok_alog_msg [simp]: "answer_ok (alog_msg l m s) = answer_ok s"
  by (simp add: alog_msg_def)

lemma poll_answer_wait_until [simp]: "poll_answer (wait_until t s) = poll_answer s"
  by (simp add: wait_until_def Let_def)

lemma polls_wait_until [simp]: "polls (wait_until t s) = polls s"
  by (simp add: wait_until_def Let_def)



lemmas acme_eval =
  alog_msg_def get_challenge_def status_name_def wait_until_def client_poll_def retry_after_def
  get_authorizations_def




section \<open>What is left after a failed authorization\<close>

lemmas session_eval =
  slog_def path_str_def write_challenge_def remove_and_raise_def handle_authorizations_def

text \<open>
  C3. The claim: on every exit after the challenge files were written, also when polling
  raises, the files are removed, the \<open>clear_http_challenge\<close> hooks are fired and
  \<open>hooks.call()\<close> is invoked before the error is propagated. An order with one pending
  authorization and a server that answers pending for ever: the poll loop raises the
  timeout, the challenge file is removed and the error propagated, but the only command
  ever started is that of \<open>set_http_challenge\<close>. With a server that answers valid the
  \<open>clear_http_challenge\<close> command is started as well.
\<close>

theorem failed_authorization_fires_no_clear_hook:
  "fst (handle_authorizations 5 [pending_example] challenge_dir 1 10 challenge_session) =
     Some (Inl (AcmeError ''Authorization timed out for {}'' [''a.org''])) \<and>
   \<not> exists_path (fs (snd (handle_authorizations 5 [pending_example] challenge_dir 1 10 challenge_session)))
       [''www'', ''.well-known'', ''acme-challenge'', ''tok''] \<and>
   started (hk (snd (handle_authorizations 5 [pending_example] challenge_dir 1 10 challenge_session))) =
     [[''set'', ''a.org'']] \<and>
   queue (hk (snd (handle_authorizations 5 [pending_example] challenge_dir 1 10 challenge_session))) = [] \<and>
   started (hk (snd (handle_authorizations 5 [pending_example] challenge_dir 1 10
     (challenge_session\<lparr>ac := valid_server\<rparr>)))) = [[''set'', ''a.org''], [''clear'', ''a.org'']]"
  by (simp add: challenge_session_def web_root_def challenge_dir_def pending_example_def
      pending_server_def valid_server_def two_hooks_def session_eval acme_eval hooks_eval fs_eval numeral_nat Let_def)

end
